theory Spec2Isabelle
  imports Main "HOL-Library.Sublist"
begin

section \<open>Python values, exceptions and JSON text\<close>

text \<open>
  The values that \<^verbatim>\<open>json.loads\<close> produces and that the tool arguments are made of. A
  \<^verbatim>\<open>dict\<close> is an association list read with \<open>map_of\<close>; a float is carried by its
  literal and never inspected. Strings are lists of 8-bit characters, read as the code
  points below 256.
\<close>

datatype json =
    JNull
  | JBool bool
  | JInt int
  | JFloat string
  | JStr string
  | JArr "json list"
  | JObj "(string \<times> json) list"

text \<open>
  The exceptions (subclasses of \<^verbatim>\<open>Exception\<close>) that the modelled code meets.
  \<open>KeyError\<close> carries the missing key, every other constructor the text that
  \<^verbatim>\<open>str(e)\<close> gives. \<open>JSONDecodeError\<close>, \<open>ValueError\<close> and \<open>RecursionError\<close> are
  what \<^verbatim>\<open>json.loads\<close> raises: the first on text that is not JSON, the second on a
  number of more than 4300 digits, the third on text nested too deep. \<open>OtherError\<close>
  stands for any further \<^verbatim>\<open>Exception\<close> of a library (a network failure, a
  remote-API error). Interrupts are not \<^verbatim>\<open>Exception\<close>s and are outside the model.
\<close>

datatype exn =
    KeyError string
  | TypeError string
  | AttributeError string
  | OverflowError string
  | JSONDecodeError string
  | ValueError string
  | RecursionError string
  | GithubException string
  | OtherError string

definition quoted :: "string \<Rightarrow> string" where
  "quoted s = [CHR 0x27] @ s @ [CHR 0x27]"

text \<open>
  \<^verbatim>\<open>str(e)\<close>. For a \<^verbatim>\<open>KeyError\<close> it is \<^verbatim>\<open>repr(key)\<close>; the keys looked up by
  this program are identifiers written in the source, for which \<^verbatim>\<open>repr\<close> adds the two
  single quotes only.
\<close>

fun str_exn :: "exn \<Rightarrow> string" where
  "str_exn (KeyError k) = quoted k"
| "str_exn (TypeError m) = m"
| "str_exn (AttributeError m) = m"
| "str_exn (OverflowError m) = m"
| "str_exn (JSONDecodeError m) = m"
| "str_exn (ValueError m) = m"
| "str_exn (RecursionError m) = m"
| "str_exn (GithubException m) = m"
| "str_exn (OtherError m) = m"

text \<open>
  What \<^verbatim>\<open>except json.JSONDecodeError\<close> catches. The class derives from
  \<^verbatim>\<open>ValueError\<close>; a plain \<^verbatim>\<open>ValueError\<close> is not an instance of it.
\<close>

fun is_JSONDecodeError :: "exn \<Rightarrow> bool" where
  "is_JSONDecodeError (JSONDecodeError m) = True"
| "is_JSONDecodeError e = False"

fun type_name :: "json \<Rightarrow> string" where
  "type_name JNull = ''NoneType''"
| "type_name (JBool b) = ''bool''"
| "type_name (JInt i) = ''int''"
| "type_name (JFloat r) = ''float''"
| "type_name (JStr s) = ''str''"
| "type_name (JArr xs) = ''list''"
| "type_name (JObj kvs) = ''dict''"

text \<open>
  \<^verbatim>\<open>args[key]\<close> for a string key, with the failures of each type of \<^verbatim>\<open>args\<close>
  (the message texts are those of CPython 3.11; no property depends on them).
\<close>

fun py_getitem :: "json \<Rightarrow> string \<Rightarrow> exn + json" where
  "py_getitem (JObj kvs) k =
     (case map_of kvs k of Some v \<Rightarrow> Inr v | None \<Rightarrow> Inl (KeyError k))"
| "py_getitem (JArr xs) k =
     Inl (TypeError ''list indices must be integers or slices, not str'')"
| "py_getitem (JStr s) k =
     Inl (TypeError (''string indices must be integers, not '' @ quoted ''str''))"
| "py_getitem v k =
     Inl (TypeError (quoted (type_name v) @ '' object is not subscriptable''))"

text \<open>\<^verbatim>\<open>args.get(key, default)\<close>: only a \<^verbatim>\<open>dict\<close> has the method.\<close>

definition value_or :: "(string \<times> json) list \<Rightarrow> string \<Rightarrow> json \<Rightarrow> json" where
  "value_or kvs k d = (case map_of kvs k of Some v \<Rightarrow> v | None \<Rightarrow> d)"

fun py_get :: "json \<Rightarrow> string \<Rightarrow> json \<Rightarrow> exn + json" where
  "py_get (JObj kvs) k d = Inr (value_or kvs k d)"
| "py_get v k d =
     Inl (AttributeError (quoted (type_name v) @ '' object has no attribute '' @ quoted ''get''))"

subsection \<open>\<^verbatim>\<open>json.dumps\<close> with its default settings\<close>

definition hex_digit :: "nat \<Rightarrow> char" where
  "hex_digit n = ''0123456789abcdef'' ! n"

text \<open>
  One character of a string literal, as the ASCII-only encoder writes it: the quote and
  the backslash are escaped, the characters from the space to the tilde stand for
  themselves, and every other one becomes a short escape or \<^verbatim>\<open>\u00XX\<close>.
\<close>

definition escape_char :: "char \<Rightarrow> string" where
  "escape_char c =
     (if c = CHR 0x22 then [CHR 0x5C, CHR 0x22]
      else if c = CHR 0x5C then [CHR 0x5C, CHR 0x5C]
      else if c = CHR 0x0A then [CHR 0x5C, CHR ''n'']
      else if c = CHR 0x0D then [CHR 0x5C, CHR ''r'']
      else if c = CHR 0x09 then [CHR 0x5C, CHR ''t'']
      else if c = CHR 0x08 then [CHR 0x5C, CHR ''b'']
      else if c = CHR 0x0C then [CHR 0x5C, CHR ''f'']
      else if 32 \<le> (of_char c :: nat) \<and> (of_char c :: nat) \<le> 126 then [c]
      else [CHR 0x5C, CHR ''u'', CHR ''0'', CHR ''0'',
            hex_digit ((of_char c :: nat) div 16), hex_digit ((of_char c :: nat) mod 16)])"

definition escaped :: "string \<Rightarrow> string" where
  "escaped s = concat (map escape_char s)"

definition encode_string :: "string \<Rightarrow> string" where
  "encode_string s = [CHR 0x22] @ escaped s @ [CHR 0x22]"

text \<open>The decimal text of an integer, as \<^verbatim>\<open>str\<close> and \<^verbatim>\<open>%d\<close> write it.\<close>

definition digit_char :: "nat \<Rightarrow> char" where
  "digit_char d = ''0123456789'' ! d"

fun decimal :: "nat \<Rightarrow> string" where
  "decimal n = (if 10 \<le> n then decimal (n div 10) @ [digit_char (n mod 10)] else [digit_char n])"

declare decimal.simps [simp del]

definition string_of_int :: "int \<Rightarrow> string" where
  "string_of_int i = (if i < 0 then ''-'' @ decimal (nat (- i)) else decimal (nat i))"

fun intercalate :: "string \<Rightarrow> string list \<Rightarrow> string" where
  "intercalate sep [] = []"
| "intercalate sep [x] = x"
| "intercalate sep (x # y # ys) = x @ sep @ intercalate sep (y # ys)"

text \<open>
  \<^verbatim>\<open>json.dumps(obj)\<close> with the default separators \<^verbatim>\<open>", "\<close> and \<^verbatim>\<open>": "\<close>. The
  program serialises only the payload objects it builds itself, which hold strings and
  booleans.
\<close>

fun json_dumps :: "json \<Rightarrow> string" where
  "json_dumps JNull = ''null''"
| "json_dumps (JBool b) = (if b then ''true'' else ''false'')"
| "json_dumps (JInt i) = string_of_int i"
| "json_dumps (JFloat r) = r"
| "json_dumps (JStr s) = encode_string s"
| "json_dumps (JArr xs) = ''['' @ intercalate '', '' (map json_dumps xs) @ '']''"
| "json_dumps (JObj kvs) =
     ''{'' @ intercalate '', '' (map (\<lambda>(k, v). encode_string k @ '': '' @ json_dumps v) kvs) @ ''}''"

text \<open>
  A string in which the encoder changes nothing: printable ASCII without the quote and
  the backslash.
\<close>

definition plain :: "string \<Rightarrow> bool" where
  "plain s = list_all (\<lambda>c. 32 \<le> (of_char c :: nat) \<and> (of_char c :: nat) \<le> 126
                            \<and> c \<noteq> CHR 0x22 \<and> c \<noteq> CHR 0x5C) s"

section \<open>The tool registry and the dispatcher (\<^verbatim>\<open>agent/tools/__init__.py\<close>)\<close>

type_synonym config = "string \<rightharpoonup> string"

text \<open>
  A call of a tool function runs against the world outside the process (the log service,
  the repository, the clock): it takes the world, and returns either the exception it
  raised or the string it returned, together with the world it left.
\<close>

type_synonym 'w call = "'w \<Rightarrow> (exn + string) \<times> 'w"

text \<open>
  The seven functions of the modules \<^verbatim>\<open>gcp_logging\<close> and \<^verbatim>\<open>github\<close> that the
  dispatcher calls. The dispatcher hands them whatever values the argument object holds,
  so they take \<open>json\<close> values here; the dispatcher is modelled for every behaviour of
  theirs.
\<close>

record 'w tools =
  gcp_logging_query_logs :: "config \<Rightarrow> json \<Rightarrow> json \<Rightarrow> 'w call"
  gcp_logging_list_log_entries :: "config \<Rightarrow> json \<Rightarrow> json \<Rightarrow> json \<Rightarrow> 'w call"
  github_list_repo_files :: "config \<Rightarrow> json \<Rightarrow> 'w call"
  github_get_file_content :: "config \<Rightarrow> json \<Rightarrow> json \<Rightarrow> 'w call"
  github_create_branch :: "config \<Rightarrow> json \<Rightarrow> 'w call"
  github_commit_file_change :: "config \<Rightarrow> json \<Rightarrow> json \<Rightarrow> json \<Rightarrow> json \<Rightarrow> 'w call"
  github_create_pull_request :: "config \<Rightarrow> json \<Rightarrow> json \<Rightarrow> json \<Rightarrow> json \<Rightarrow> 'w call"

text \<open>
  \<^verbatim>\<open>TOOL_SCHEMAS\<close>: for each contract its name, its properties with their types, and
  the required ones (the descriptions are prose for the model and are left out).
\<close>

record tool_schema =
  schema_name :: string
  schema_properties :: "(string \<times> string) list"
  schema_required :: "string list"

definition TOOL_SCHEMAS :: "tool_schema list" where
  "TOOL_SCHEMAS =
     [\<lparr>schema_name = ''query_logs'',
       schema_properties = [(''filter_str'', ''string''), (''limit'', ''integer'')],
       schema_required = [''filter_str'']\<rparr>,
      \<lparr>schema_name = ''list_log_entries'',
       schema_properties =
         [(''function_name'', ''string''), (''hours_ago'', ''integer''), (''limit'', ''integer'')],
       schema_required = [''function_name'']\<rparr>,
      \<lparr>schema_name = ''list_repo_files'',
       schema_properties = [(''path'', ''string'')],
       schema_required = []\<rparr>,
      \<lparr>schema_name = ''get_file_content'',
       schema_properties = [(''path'', ''string''), (''ref'', ''string'')],
       schema_required = [''path'']\<rparr>,
      \<lparr>schema_name = ''create_branch'',
       schema_properties = [(''branch_name'', ''string'')],
       schema_required = [''branch_name'']\<rparr>,
      \<lparr>schema_name = ''commit_file_change'',
       schema_properties =
         [(''path'', ''string''), (''content'', ''string''), (''message'', ''string''),
          (''branch'', ''string'')],
       schema_required = [''path'', ''content'', ''message'', ''branch'']\<rparr>,
      \<lparr>schema_name = ''create_pull_request'',
       schema_properties =
         [(''title'', ''string''), (''body'', ''string''), (''head_branch'', ''string''),
          (''base_branch'', ''string'')],
       schema_required = [''title'', ''body'', ''head_branch'']\<rparr>]"

text \<open>
  The entries of the \<^verbatim>\<open>handlers\<close> dictionary. Each lambda evaluates its arguments from
  left to right, so the first failing lookup is the exception raised, before the tool
  function is entered.
\<close>

definition handle_query_logs :: "'w tools \<Rightarrow> config \<Rightarrow> json \<Rightarrow> 'w call" where
  "handle_query_logs T config args w =
     (case py_getitem args ''filter_str'' of Inl e \<Rightarrow> (Inl e, w) | Inr filter_str \<Rightarrow>
      case py_get args ''limit'' (JInt 50) of Inl e \<Rightarrow> (Inl e, w) | Inr limit \<Rightarrow>
        gcp_logging_query_logs T config filter_str limit w)"

definition handle_list_log_entries :: "'w tools \<Rightarrow> config \<Rightarrow> json \<Rightarrow> 'w call" where
  "handle_list_log_entries T config args w =
     (case py_getitem args ''function_name'' of Inl e \<Rightarrow> (Inl e, w) | Inr function_name \<Rightarrow>
      case py_get args ''hours_ago'' (JInt 24) of Inl e \<Rightarrow> (Inl e, w) | Inr hours_ago \<Rightarrow>
      case py_get args ''limit'' (JInt 50) of Inl e \<Rightarrow> (Inl e, w) | Inr limit \<Rightarrow>
        gcp_logging_list_log_entries T config function_name hours_ago limit w)"

definition handle_list_repo_files :: "'w tools \<Rightarrow> config \<Rightarrow> json \<Rightarrow> 'w call" where
  "handle_list_repo_files T config args w =
     (case py_get args ''path'' (JStr '''') of Inl e \<Rightarrow> (Inl e, w) | Inr path \<Rightarrow>
        github_list_repo_files T config path w)"

definition handle_get_file_content :: "'w tools \<Rightarrow> config \<Rightarrow> json \<Rightarrow> 'w call" where
  "handle_get_file_content T config args w =
     (case py_getitem args ''path'' of Inl e \<Rightarrow> (Inl e, w) | Inr path \<Rightarrow>
      case py_get args ''ref'' (JStr ''main'') of Inl e \<Rightarrow> (Inl e, w) | Inr ref \<Rightarrow>
        github_get_file_content T config path ref w)"

definition handle_create_branch :: "'w tools \<Rightarrow> config \<Rightarrow> json \<Rightarrow> 'w call" where
  "handle_create_branch T config args w =
     (case py_getitem args ''branch_name'' of Inl e \<Rightarrow> (Inl e, w) | Inr branch_name \<Rightarrow>
        github_create_branch T config branch_name w)"

definition handle_commit_file_change :: "'w tools \<Rightarrow> config \<Rightarrow> json \<Rightarrow> 'w call" where
  "handle_commit_file_change T config args w =
     (case py_getitem args ''path'' of Inl e \<Rightarrow> (Inl e, w) | Inr path \<Rightarrow>
      case py_getitem args ''content'' of Inl e \<Rightarrow> (Inl e, w) | Inr content \<Rightarrow>
      case py_getitem args ''message'' of Inl e \<Rightarrow> (Inl e, w) | Inr message \<Rightarrow>
      case py_getitem args ''branch'' of Inl e \<Rightarrow> (Inl e, w) | Inr branch \<Rightarrow>
        github_commit_file_change T config path content message branch w)"

definition handle_create_pull_request :: "'w tools \<Rightarrow> config \<Rightarrow> json \<Rightarrow> 'w call" where
  "handle_create_pull_request T config args w =
     (case py_getitem args ''title'' of Inl e \<Rightarrow> (Inl e, w) | Inr title \<Rightarrow>
      case py_getitem args ''body'' of Inl e \<Rightarrow> (Inl e, w) | Inr body \<Rightarrow>
      case py_getitem args ''head_branch'' of Inl e \<Rightarrow> (Inl e, w) | Inr head_branch \<Rightarrow>
      case py_get args ''base_branch'' (JStr ''main'') of Inl e \<Rightarrow> (Inl e, w) | Inr base_branch \<Rightarrow>
        github_create_pull_request T config title body head_branch base_branch w)"

definition handlers :: "'w tools \<Rightarrow> config \<Rightarrow> (string \<times> (json \<Rightarrow> 'w call)) list" where
  "handlers T config =
     [(''query_logs'', handle_query_logs T config),
      (''list_log_entries'', handle_list_log_entries T config),
      (''list_repo_files'', handle_list_repo_files T config),
      (''get_file_content'', handle_get_file_content T config),
      (''create_branch'', handle_create_branch T config),
      (''commit_file_change'', handle_commit_file_change T config),
      (''create_pull_request'', handle_create_pull_request T config)]"

definition error_payload :: "string \<Rightarrow> string" where
  "error_payload msg = json_dumps (JObj [(''error'', JStr msg)])"

text \<open>
  The \<^verbatim>\<open>try\<close> statement of \<^verbatim>\<open>dispatch\<close> around the finished call of the handler: a
  returned string is passed on, an exception becomes the error object.
\<close>

definition guarded :: "string \<Rightarrow> (exn + string) \<times> 'w \<Rightarrow> (exn + string) \<times> 'w" where
  "guarded tool_name r =
     (case r of
        (Inr result, w') \<Rightarrow> (Inr result, w')
      | (Inl e, w') \<Rightarrow>
          (Inr (error_payload (''Tool '' @ quoted tool_name @ '' failed: '' @ str_exn e)), w'))"

text \<open>
  \<^verbatim>\<open>dispatch(tool_name, arguments, config)\<close>. The result keeps a place for an exception
  leaving the function, so that "it does not raise" is a statement about the model and
  not a consequence of its type.
\<close>

definition dispatch :: "'w tools \<Rightarrow> string \<Rightarrow> json \<Rightarrow> config \<Rightarrow> 'w call" where
  "dispatch T tool_name arguments config w =
     (case map_of (handlers T config) tool_name of
        None \<Rightarrow> (Inr (error_payload (''Unknown tool: '' @ tool_name)), w)
      | Some handler \<Rightarrow> guarded tool_name (handler arguments w))"

definition registered :: "string \<Rightarrow> bool" where
  "registered tool_name = (tool_name \<in> set (map schema_name TOOL_SCHEMAS))"

text \<open>The error object for a required argument that the mapping lacks.\<close>

definition missing_payload :: "string \<Rightarrow> string \<Rightarrow> string" where
  "missing_payload tool_name key =
     error_payload (''Tool '' @ quoted tool_name @ '' failed: '' @ quoted key)"

section \<open>The driver loop (\<^verbatim>\<open>agent/agent.py\<close>)\<close>

text \<open>
  A tool-call request of an assistant message: \<^verbatim>\<open>tool_call.id\<close>,
  \<^verbatim>\<open>tool_call.function.name\<close> and \<^verbatim>\<open>tool_call.function.arguments\<close>.
\<close>

record tool_call =
  tc_id :: string
  tc_name :: string
  tc_arguments :: string

text \<open>
  The assistant message of a response, \<^verbatim>\<open>response.choices[0].message\<close>: its content
  and its tool calls, each of which may be \<^verbatim>\<open>None\<close>.
\<close>

record chat_message =
  msg_content :: "string option"
  msg_tool_calls :: "tool_call list option"

text \<open>
  What \<^verbatim>\<open>self.messages\<close> holds: the dictionaries the driver builds (system, user, final
  assistant text, tool result with its \<^verbatim>\<open>tool_call_id\<close> and content) and the message
  objects of the model that it appends as they are.
\<close>

datatype entry =
    SystemDict string
  | UserDict string
  | AssistantDict string
  | AssistantMessage chat_message
  | ToolDict string string

text \<open>
  What the driver is given from outside: the model service
  (\<^verbatim>\<open>client.chat.completions.create\<close> followed by \<^verbatim>\<open>.choices[0].message\<close>, which either
  raises or yields a message), \<^verbatim>\<open>json.loads\<close> (which yields a value or raises, a
  \<^verbatim>\<open>JSONDecodeError\<close> or another exception), the tool functions, and the text of
  \<^verbatim>\<open>SYSTEM_PROMPT\<close>, a constant that no branch inspects.
\<close>

record 'w services =
  chat_completions_create :: "entry list \<Rightarrow> 'w \<Rightarrow> (exn + chat_message) \<times> 'w"
  json_loads :: "string \<Rightarrow> exn + json"
  tool_functions :: "'w tools"
  SYSTEM_PROMPT :: string

text \<open>
  The agent object with the world it runs in. \<open>model_calls\<close> is a ghost counter of the
  requests sent to the model; the code has no such field.
\<close>

record 'w agent =
  agent_config :: config
  max_iterations :: int
  messages :: "entry list"
  world :: 'w
  model_calls :: nat

text \<open>
  How \<^verbatim>\<open>run\<close> ends: the return inside the loop, the return after it, or an exception
  that leaves it.
\<close>

datatype outcome = Completed string | Exhausted string | Raised exn

definition get_user_prompt :: "string \<Rightarrow> string \<Rightarrow> string" where
  "get_user_prompt function_name project_id =
     ''Investigate production issues with the Cloud Function '' @ quoted function_name
     @ '' in GCP project '' @ quoted project_id @ ''. ''
     @ ''Check the logs for any errors or anomalous behavior, ''
     @ ''identify the root cause, fix the code, and open a GitHub Pull Request.''"

text \<open>\<^verbatim>\<open>message.content or "Agent finished without a summary."\<close>\<close>

definition final_message_of :: "chat_message \<Rightarrow> string" where
  "final_message_of message =
     (case msg_content message of
        None \<Rightarrow> ''Agent finished without a summary.''
      | Some c \<Rightarrow> if c = [] then ''Agent finished without a summary.'' else c)"

text \<open>The requests of a message; \<^verbatim>\<open>not message.tool_calls\<close> holds when there are none.\<close>

definition requests :: "chat_message \<Rightarrow> tool_call list" where
  "requests message = (case msg_tool_calls message of None \<Rightarrow> [] | Some tcs \<Rightarrow> tcs)"

text \<open>
  The \<^verbatim>\<open>try\<close> statement around \<^verbatim>\<open>json.loads\<close>: a \<^verbatim>\<open>JSONDecodeError\<close> gives the empty
  mapping, any other exception is not caught.
\<close>

definition load_arguments :: "'w services \<Rightarrow> string \<Rightarrow> exn + json" where
  "load_arguments S raw =
     (case json_loads S raw of
        Inr v \<Rightarrow> Inr v
      | Inl e \<Rightarrow> if is_JSONDecodeError e then Inr (JObj []) else Inl e)"

text \<open>
  The body of the inner loop, for one request: \<open>Some\<close> exception when one leaves the
  loop (and \<^verbatim>\<open>run\<close>), \<open>None\<close> when the tool message has been appended. The text that
  line 90 builds for the verbose trace is \<^verbatim>\<open>json.dumps\<close> of a value \<^verbatim>\<open>json.loads\<close>
  has just returned, which does not raise.
\<close>

definition call_tool :: "'w services \<Rightarrow> tool_call \<Rightarrow> 'w agent \<Rightarrow> exn option \<times> 'w agent" where
  "call_tool S tc a =
     (case load_arguments S (tc_arguments tc) of
        Inl e \<Rightarrow> (Some e, a)
      | Inr arguments \<Rightarrow>
          (case dispatch (tool_functions S) (tc_name tc) arguments (agent_config a) (world a) of
             (Inl e, w') \<Rightarrow> (Some e, a\<lparr>world := w'\<rparr>)
           | (Inr result, w') \<Rightarrow>
               (None, a\<lparr>world := w', messages := messages a @ [ToolDict (tc_id tc) result]\<rparr>)))"

fun call_tools :: "'w services \<Rightarrow> tool_call list \<Rightarrow> 'w agent \<Rightarrow> exn option \<times> 'w agent" where
  "call_tools S [] a = (None, a)"
| "call_tools S (tc # tcs) a =
     (case call_tool S tc a of
        (Some e, a') \<Rightarrow> (Some e, a')
      | (None, a') \<Rightarrow> call_tools S tcs a')"

text \<open>
  The body of the outer loop: \<open>Some\<close> outcome when it leaves \<^verbatim>\<open>run\<close>, \<open>None\<close> when
  the loop goes on.
\<close>

definition iteration_body :: "'w services \<Rightarrow> 'w agent \<Rightarrow> outcome option \<times> 'w agent" where
  "iteration_body S a =
     (case chat_completions_create S (messages a) (world a) of
        (Inl e, w') \<Rightarrow> (Some (Raised e), a\<lparr>world := w', model_calls := Suc (model_calls a)\<rparr>)
      | (Inr message, w') \<Rightarrow>
          (let a1 = a\<lparr>world := w', model_calls := Suc (model_calls a)\<rparr>
           in if requests message = [] then
                (let final_message = final_message_of message
                 in (Some (Completed final_message),
                     a1\<lparr>messages := messages a1 @ [AssistantDict final_message]\<rparr>))
              else
                (case call_tools S (requests message)
                        (a1\<lparr>messages := messages a1 @ [AssistantMessage message]\<rparr>) of
                   (Some e, a2) \<Rightarrow> (Some (Raised e), a2)
                 | (None, a2) \<Rightarrow> (None, a2))))"

text \<open>The outer loop over the values of \<^verbatim>\<open>range(1, self.max_iterations + 1)\<close>.\<close>

fun run_loop :: "'w services \<Rightarrow> int list \<Rightarrow> 'w agent \<Rightarrow> outcome \<times> 'w agent" where
  "run_loop S [] a =
     (Exhausted ''Agent reached maximum iterations without completing the task.'', a)"
| "run_loop S (iteration # rest) a =
     (case iteration_body S a of
        (Some out, a') \<Rightarrow> (out, a')
      | (None, a') \<Rightarrow> run_loop S rest a')"

text \<open>
  \<^verbatim>\<open>DebugAgent.run\<close>. The transcript is seeded from two entries of the configuration;
  the banner then reads a third one. A missing entry is a \<^verbatim>\<open>KeyError\<close> before the loop.
  Printing is not modelled.
\<close>

definition run :: "'w services \<Rightarrow> 'w agent \<Rightarrow> outcome \<times> 'w agent" where
  "run S a =
     (case agent_config a ''GCP_FUNCTION_NAME'' of
        None \<Rightarrow> (Raised (KeyError ''GCP_FUNCTION_NAME''), a)
      | Some function_name \<Rightarrow>
     (case agent_config a ''GCP_PROJECT_ID'' of
        None \<Rightarrow> (Raised (KeyError ''GCP_PROJECT_ID''), a)
      | Some project_id \<Rightarrow>
          (let a0 = a\<lparr>messages := [SystemDict (SYSTEM_PROMPT S),
                                     UserDict (get_user_prompt function_name project_id)]\<rparr>
           in case agent_config a ''GITHUB_REPO'' of
                None \<Rightarrow> (Raised (KeyError ''GITHUB_REPO''), a0)
              | Some repo \<Rightarrow> run_loop S [1..max_iterations a] a0)))"

subsection \<open>Notions used to state the properties of the loop\<close>

text \<open>
  The configuration that \<^verbatim>\<open>load_config\<close> lets through holds every entry \<^verbatim>\<open>run\<close> reads.
\<close>

definition config_ok :: "config \<Rightarrow> bool" where
  "config_ok c = (c ''GCP_FUNCTION_NAME'' \<noteq> None \<and> c ''GCP_PROJECT_ID'' \<noteq> None
                  \<and> c ''GITHUB_REPO'' \<noteq> None)"

text \<open>The agent as the loop is entered: the transcript holds the two seed messages.\<close>

definition seeded :: "'w services \<Rightarrow> 'w agent \<Rightarrow> 'w agent" where
  "seeded S a =
     (case (agent_config a ''GCP_FUNCTION_NAME'', agent_config a ''GCP_PROJECT_ID'') of
        (Some function_name, Some project_id) \<Rightarrow>
          a\<lparr>messages := [SystemDict (SYSTEM_PROMPT S),
                          UserDict (get_user_prompt function_name project_id)]\<rparr>
      | _ \<Rightarrow> a)"

text \<open>
  The agent after \<open>k\<close> iterations that all ran to their end without leaving \<^verbatim>\<open>run\<close>,
  that is, as iteration \<open>k + 1\<close> would find it; \<open>None\<close> when an earlier iteration
  returned or raised.
\<close>

primrec after_iterations :: "'w services \<Rightarrow> 'w agent \<Rightarrow> nat \<Rightarrow> 'w agent option" where
  "after_iterations S a 0 = Some a"
| "after_iterations S a (Suc k) =
     (case after_iterations S a k of
        None \<Rightarrow> None
      | Some a' \<Rightarrow> (case iteration_body S a' of (None, a'') \<Rightarrow> Some a'' | (Some out, a'') \<Rightarrow> None))"

text \<open>The tool messages for a list of requests, given the result of each.\<close>

definition tool_dicts :: "tool_call list \<Rightarrow> string list \<Rightarrow> entry list" where
  "tool_dicts tcs results = map (\<lambda>(tc, result). ToolDict (tc_id tc) result) (zip tcs results)"

section \<open>Committing a file (\<^verbatim>\<open>agent/tools/github.py\<close>)\<close>

text \<open>
  What \<^verbatim>\<open>repo.get_contents\<close> yields: one file, of which only the blob hash is read, or
  the listing of a directory.
\<close>

record content_file =
  cf_name :: string
  cf_path :: string
  cf_sha :: string

datatype contents = ContentFile content_file | ContentList "content_file list"

text \<open>
  The operations of the GitHub client library that \<^verbatim>\<open>commit_file_change\<close> uses, each a
  call into the remote service: opening the repository for a token and a name, reading
  a path at a ref, and the two writes (path, message, content, blob hash for the update,
  branch), which yield the hash of the new commit.
\<close>

record ('w, 'r) github_lib =
  Github_get_repo :: "string \<Rightarrow> string \<Rightarrow> 'w \<Rightarrow> (exn + 'r) \<times> 'w"
  repo_get_contents :: "'r \<Rightarrow> string \<Rightarrow> string \<Rightarrow> 'w \<Rightarrow> (exn + contents) \<times> 'w"
  repo_update_file ::
    "'r \<Rightarrow> string \<Rightarrow> string \<Rightarrow> string \<Rightarrow> string \<Rightarrow> string \<Rightarrow> 'w \<Rightarrow> (exn + string) \<times> 'w"
  repo_create_file ::
    "'r \<Rightarrow> string \<Rightarrow> string \<Rightarrow> string \<Rightarrow> string \<Rightarrow> 'w \<Rightarrow> (exn + string) \<times> 'w"

fun is_GithubException :: "exn \<Rightarrow> bool" where
  "is_GithubException (GithubException m) = True"
| "is_GithubException e = False"

definition get_repo :: "('w, 'r) github_lib \<Rightarrow> config \<Rightarrow> 'w \<Rightarrow> (exn + 'r) \<times> 'w" where
  "get_repo G config w =
     (case config ''GITHUB_TOKEN'' of
        None \<Rightarrow> (Inl (KeyError ''GITHUB_TOKEN''), w)
      | Some token \<Rightarrow>
          (case config ''GITHUB_REPO'' of
             None \<Rightarrow> (Inl (KeyError ''GITHUB_REPO''), w)
           | Some name \<Rightarrow> Github_get_repo G token name w))"

text \<open>The statements of the outer \<^verbatim>\<open>try\<close> block, up to its \<^verbatim>\<open>return\<close>.\<close>

definition try_update ::
  "('w, 'r) github_lib \<Rightarrow> 'r \<Rightarrow> string \<Rightarrow> string \<Rightarrow> string \<Rightarrow> string \<Rightarrow> 'w call" where
  "try_update G repo path content message branch w =
     (case repo_get_contents G repo path branch w of
        (Inl e, w1) \<Rightarrow> (Inl e, w1)
      | (Inr (ContentList items), w1) \<Rightarrow>
          (Inl (AttributeError (quoted ''list'' @ '' object has no attribute '' @ quoted ''sha'')), w1)
      | (Inr (ContentFile existing), w1) \<Rightarrow>
          (case repo_update_file G repo path message content (cf_sha existing) branch w1 of
             (Inl e, w2) \<Rightarrow> (Inl e, w2)
           | (Inr commit_sha, w2) \<Rightarrow>
               (Inr (json_dumps (JObj [(''success'', JBool True), (''action'', JStr ''updated''),
                                       (''commit_sha'', JStr commit_sha)])), w2)))"

text \<open>The statements of the inner \<^verbatim>\<open>try\<close> block with its handler.\<close>

definition try_create ::
  "('w, 'r) github_lib \<Rightarrow> 'r \<Rightarrow> string \<Rightarrow> string \<Rightarrow> string \<Rightarrow> string \<Rightarrow> 'w call" where
  "try_create G repo path content message branch w =
     (case repo_create_file G repo path message content branch w of
        (Inr commit_sha, w1) \<Rightarrow>
          (Inr (json_dumps (JObj [(''success'', JBool True), (''action'', JStr ''created''),
                                  (''commit_sha'', JStr commit_sha)])), w1)
      | (Inl e, w1) \<Rightarrow>
          (if is_GithubException e then (Inr (json_dumps (JObj [(''error'', JStr (str_exn e))])), w1)
           else (Inl e, w1)))"

definition commit_file_change ::
  "('w, 'r) github_lib \<Rightarrow> config \<Rightarrow> string \<Rightarrow> string \<Rightarrow> string \<Rightarrow> string \<Rightarrow> 'w call" where
  "commit_file_change G config path content message branch w =
     (case get_repo G config w of
        (Inl e, w0) \<Rightarrow> (Inl e, w0)
      | (Inr repo, w0) \<Rightarrow>
          (case try_update G repo path content message branch w0 of
             (Inr result, w1) \<Rightarrow> (Inr result, w1)
           | (Inl e, w1) \<Rightarrow>
               (if is_GithubException e then try_create G repo path content message branch w1
                else (Inl e, w1))))"

text \<open>The success payload, for an action and the hash of the commit.\<close>

definition commit_payload :: "string \<Rightarrow> string \<Rightarrow> string" where
  "commit_payload action commit_sha =
     json_dumps (JObj [(''success'', JBool True), (''action'', JStr action),
                       (''commit_sha'', JStr commit_sha)])"

section \<open>Recent log entries (\<^verbatim>\<open>agent/tools/gcp_logging.py\<close>)\<close>

text \<open>
  A \<^verbatim>\<open>datetime\<close> in UTC is the number of microseconds since 0001-01-01T00:00:00; the
  type ends with the year 9999.
\<close>

type_synonym datetime = int

definition datetime_max :: datetime where
  "datetime_max = 3652059 * 86400 * 1000000 - 1"

text \<open>
  \<^verbatim>\<open>timedelta(hours=h)\<close>, in microseconds. The constructor refuses a number of days that
  does not fit a C \<^verbatim>\<open>int\<close>, and one beyond 999999999 in magnitude.
\<close>

definition timedelta_hours :: "int \<Rightarrow> exn + int" where
  "timedelta_hours h =
     (let days = h div 24
      in if days < - 2147483648 \<or> 2147483647 < days
         then Inl (OverflowError ''Python int too large to convert to C int'')
         else if days < - 999999999 \<or> 999999999 < days
         then Inl (OverflowError (''days='' @ string_of_int days
                                   @ ''; must have magnitude <= 999999999''))
         else Inr (h * 3600000000))"

text \<open>\<^verbatim>\<open>now - delta\<close>: the difference has to be a \<^verbatim>\<open>datetime\<close> again.\<close>

definition datetime_sub :: "datetime \<Rightarrow> int \<Rightarrow> exn + datetime" where
  "datetime_sub now delta =
     (if 0 \<le> now - delta \<and> now - delta \<le> datetime_max then Inr (now - delta)
      else Inl (OverflowError ''date value out of range''))"

text \<open>
  What the module takes from outside: the clock (\<^verbatim>\<open>datetime.now(timezone.utc)\<close>), the
  text \<^verbatim>\<open>isoformat()\<close> gives, the credentials file that \<^verbatim>\<open>_ensure_credentials_file\<close>
  sets up in the process, the construction of the logging client for a project, and
  the rest of \<^verbatim>\<open>query_logs\<close> after the client is there: fetching the entries for a
  filter and a limit and rendering them as JSON text. No property here depends on
  how the entries are rendered, so that part is one operation of the service.
\<close>

record ('w, 'c) logging_lib =
  datetime_now :: "'w \<Rightarrow> datetime \<times> 'w"
  isoformat :: "datetime \<Rightarrow> string"
  ensure_credentials_file :: "config \<Rightarrow> 'w \<Rightarrow> (exn + string) \<times> 'w"
  LoggingClient :: "string \<Rightarrow> 'w \<Rightarrow> (exn + 'c) \<times> 'w"
  list_and_render_entries :: "'c \<Rightarrow> string \<Rightarrow> int \<Rightarrow> 'w call"

definition get_client :: "('w, 'c) logging_lib \<Rightarrow> config \<Rightarrow> 'w \<Rightarrow> (exn + 'c) \<times> 'w" where
  "get_client L config w =
     (case ensure_credentials_file L config w of
        (Inl e, w1) \<Rightarrow> (Inl e, w1)
      | (Inr credentials_path, w1) \<Rightarrow>
          (case config ''GCP_PROJECT_ID'' of
             None \<Rightarrow> (Inl (KeyError ''GCP_PROJECT_ID''), w1)
           | Some project \<Rightarrow> LoggingClient L project w1))"

definition query_logs :: "('w, 'c) logging_lib \<Rightarrow> config \<Rightarrow> string \<Rightarrow> int \<Rightarrow> 'w call" where
  "query_logs L config filter_str limit w =
     (case get_client L config w of
        (Inl e, w1) \<Rightarrow> (Inl e, w1)
      | (Inr client, w1) \<Rightarrow> list_and_render_entries L client filter_str limit w1)"

text \<open>The filter text that \<^verbatim>\<open>list_log_entries\<close> puts together.\<close>

definition request_log_filter :: "string \<Rightarrow> string \<Rightarrow> string \<Rightarrow> string" where
  "request_log_filter function_name project_id past_iso =
     ''resource.type=\"cloud_run_revision\" ''
     @ ''resource.labels.service_name=\"'' @ function_name @ ''\" ''
     @ ''logName=\"projects/'' @ project_id @ ''/logs/run.googleapis.com%2Frequests\" ''
     @ ''timestamp>=\"'' @ past_iso @ ''\"''"

definition list_log_entries ::
  "('w, 'c) logging_lib \<Rightarrow> config \<Rightarrow> string \<Rightarrow> int \<Rightarrow> int \<Rightarrow> 'w call" where
  "list_log_entries L config function_name hours_ago limit w =
     (case datetime_now L w of (now, w1) \<Rightarrow>
      (case timedelta_hours hours_ago of
         Inl e \<Rightarrow> (Inl e, w1)
       | Inr delta \<Rightarrow>
      (case datetime_sub now delta of
         Inl e \<Rightarrow> (Inl e, w1)
       | Inr past \<Rightarrow>
      (case config ''GCP_PROJECT_ID'' of
         None \<Rightarrow> (Inl (KeyError ''GCP_PROJECT_ID''), w1)
       | Some project_id \<Rightarrow>
           query_logs L config
             (request_log_filter function_name project_id (isoformat L past)) limit w1))))"

section \<open>Example services\<close>

text \<open>
  A small world for concrete runs: the replies the model will give, in order, and a
  trace of the tool functions entered with the arguments they received.
\<close>

record demo_world =
  script :: "chat_message list"
  trace :: "(string \<times> json list) list"

definition demo_enter :: "string \<Rightarrow> json list \<Rightarrow> exn + string \<Rightarrow> demo_world call" where
  "demo_enter name args result w = (result, w\<lparr>trace := trace w @ [(name, args)]\<rparr>)"

text \<open>Tool functions that record their call; the log query fails with a network error.\<close>

definition demo_tools :: "demo_world tools" where
  "demo_tools =
     \<lparr>gcp_logging_query_logs =
        (\<lambda>c f l. demo_enter ''query_logs'' [f, l] (Inl (OtherError ''connection reset''))),
      gcp_logging_list_log_entries =
        (\<lambda>c f h l. demo_enter ''list_log_entries'' [f, h, l] (Inr ''[]'')),
      github_list_repo_files = (\<lambda>c p. demo_enter ''list_repo_files'' [p] (Inr ''[]'')),
      github_get_file_content = (\<lambda>c p r. demo_enter ''get_file_content'' [p, r] (Inr ''x = 1'')),
      github_create_branch = (\<lambda>c b. demo_enter ''create_branch'' [b] (Inr ''{}'')),
      github_commit_file_change =
        (\<lambda>c p t m b. demo_enter ''commit_file_change'' [p, t, m, b] (Inr ''{}'')),
      github_create_pull_request =
        (\<lambda>c t b h d. demo_enter ''create_pull_request'' [t, b, h, d] (Inr ''{}''))\<rparr>"

definition demo_model :: "entry list \<Rightarrow> demo_world \<Rightarrow> (exn + chat_message) \<times> demo_world" where
  "demo_model transcript w =
     (case script w of
        [] \<Rightarrow> (Inl (OtherError ''Connection error.''), w)
      | reply # rest \<Rightarrow> (Inr reply, w\<lparr>script := rest\<rparr>))"

text \<open>
  A text of 1500 opening brackets: \<^verbatim>\<open>json.loads\<close> gives up on it with a
  \<^verbatim>\<open>RecursionError\<close> before it reaches the end.
\<close>

definition deep_text :: string where
  "deep_text = replicate 1500 (CHR ''['')"

text \<open>
  \<^verbatim>\<open>json.loads\<close> on the texts of the examples: the deep text, two well-formed objects,
  and a text that is not JSON, which stands for every other text here.
\<close>

definition demo_json_loads :: "string \<Rightarrow> exn + json" where
  "demo_json_loads s =
     (if s = deep_text
      then Inl (RecursionError
        ''maximum recursion depth exceeded while decoding a JSON array from a unicode string'')
      else if s = ''{}'' then Inr (JObj [])
      else if s = ''{\"function_name\": \"checkout\"}''
      then Inr (JObj [(''function_name'', JStr ''checkout'')])
      else Inl (JSONDecodeError
        ''Expecting property name enclosed in double quotes: line 1 column 2 (char 1)''))"

definition demo_services :: "demo_world services" where
  "demo_services =
     \<lparr>chat_completions_create = demo_model, json_loads = demo_json_loads,
      tool_functions = demo_tools, SYSTEM_PROMPT = ''You are an AI debugging agent.''\<rparr>"

definition demo_config :: config where
  "demo_config =
     [''OPENAI_API_KEY'' \<mapsto> ''sk'', ''GCP_PROJECT_ID'' \<mapsto> ''shop'',
      ''GCP_FUNCTION_NAME'' \<mapsto> ''checkout'', ''GCP_SA_KEY_BASE64'' \<mapsto> ''e30='',
      ''GITHUB_TOKEN'' \<mapsto> ''good'', ''GITHUB_REPO'' \<mapsto> ''shop/checkout'']"

definition demo_agent :: "int \<Rightarrow> chat_message list \<Rightarrow> demo_world agent" where
  "demo_agent bound replies =
     \<lparr>agent_config = demo_config, max_iterations = bound, messages = [],
      world = \<lparr>script = replies, trace = []\<rparr>, model_calls = 0\<rparr>"

text \<open>Two replies of the model: a request for a tool that does not exist, and a final text.\<close>

definition demo_call_foo :: chat_message where
  "demo_call_foo =
     \<lparr>msg_content = None,
      msg_tool_calls = Some [\<lparr>tc_id = ''call_1'', tc_name = ''foo'', tc_arguments = ''{}''\<rparr>]\<rparr>"

definition demo_text :: "string \<Rightarrow> chat_message" where
  "demo_text text = \<lparr>msg_content = Some text, msg_tool_calls = None\<rparr>"

text \<open>
  Further replies: a request whose argument text is the deep text, and two requests of
  which the second has argument text that is not JSON.
\<close>

definition demo_call_deep :: chat_message where
  "demo_call_deep =
     \<lparr>msg_content = None,
      msg_tool_calls =
        Some [\<lparr>tc_id = ''call_9'', tc_name = ''list_repo_files'', tc_arguments = deep_text\<rparr>]\<rparr>"

definition demo_call_two :: chat_message where
  "demo_call_two =
     \<lparr>msg_content = None,
      msg_tool_calls =
        Some [\<lparr>tc_id = ''call_1'', tc_name = ''foo'', tc_arguments = ''{}''\<rparr>,
              \<lparr>tc_id = ''call_2'', tc_name = ''list_repo_files'', tc_arguments = ''{path: ''\<rparr>]\<rparr>"

text \<open>
  A toy repository service: the branches that exist and, for a branch and a path, the
  content of the file there. A blob hash is the content behind a tag, a commit hash the
  commit message behind one; only the token \<^verbatim>\<open>good\<close> opens a repository.
\<close>

record demo_repo =
  branches :: "string list"
  files :: "((string \<times> string) \<times> string) list"

definition demo_github :: "(demo_repo, string) github_lib" where
  "demo_github =
     \<lparr>Github_get_repo = (\<lambda>token name w.
        if token = ''good'' then (Inr name, w)
        else (Inl (GithubException ''401 {\"message\": \"Bad credentials\"}''), w)),
      repo_get_contents = (\<lambda>repo path ref w.
        if ref \<notin> set (branches w)
        then (Inl (GithubException ''404 {\"message\": \"No commit found for the ref\"}''), w)
        else (case map_of (files w) (ref, path) of
                None \<Rightarrow> (Inl (GithubException ''404 {\"message\": \"Not Found\"}''), w)
              | Some text \<Rightarrow>
                  (Inr (ContentFile \<lparr>cf_name = path, cf_path = path, cf_sha = ''blob:'' @ text\<rparr>), w))),
      repo_update_file = (\<lambda>repo path message content sha branch w.
        if branch \<in> set (branches w)
           \<and> map_of (files w) (branch, path) = Some (drop 5 sha) \<and> take 5 sha = ''blob:''
        then (Inr (''commit:'' @ message), w\<lparr>files := ((branch, path), content) # files w\<rparr>)
        else (Inl (GithubException ''409 {\"message\": \"does not match\"}''), w)),
      repo_create_file = (\<lambda>repo path message content branch w.
        if branch \<notin> set (branches w)
        then (Inl (GithubException ''404 {\"message\": \"Branch not found\"}''), w)
        else if map_of (files w) (branch, path) \<noteq> None
        then (Inl (GithubException ''422 {\"message\": \"sha was not supplied\"}''), w)
        else (Inr (''commit:'' @ message), w\<lparr>files := ((branch, path), content) # files w\<rparr>))\<rparr>"

definition demo_repo_state :: demo_repo where
  "demo_repo_state =
     \<lparr>branches = [''main'', ''fix''], files = [((''fix'', ''main.py''), ''x = 1'')]\<rparr>"

text \<open>
  A toy log service: the world is the list of filters queried so far; the clock stands
  at 2026-11-06T00:00:00 UTC; \<^verbatim>\<open>isoformat\<close> is given at the one instant the examples
  format, a day earlier.
\<close>

definition demo_logging :: "(string list, string) logging_lib" where
  "demo_logging =
     \<lparr>datetime_now = (\<lambda>w. (63929520000000000, w)),
      isoformat = (\<lambda>t. if t = 63929433600000000 then ''2026-11-05T00:00:00+00:00''
                        else string_of_int t),
      ensure_credentials_file = (\<lambda>config w. (Inr ''/tmp/gcp_sa_demo.json'', w)),
      LoggingClient = (\<lambda>project w. (Inr project, w)),
      list_and_render_entries = (\<lambda>client filter_str limit w. (Inr ''[]'', w @ [filter_str]))\<rparr>"

section \<open>Properties of the dispatcher\<close>

lemma escaped_append: "escaped (a @ b) = escaped a @ escaped b"
  by (simp add: escaped_def)

lemma plain_escaped: "plain s \<Longrightarrow> escaped s = s"
  by (induction s) (auto simp: plain_def escaped_def escape_char_def)

lemma error_payload_eq:
  "error_payload msg = ''{\"error\": \"'' @ escaped msg @ ''\"}''"
proof -
  have "escaped ''error'' = ''error''"
    by (simp add: escaped_def escape_char_def)
  then show ?thesis
    by (simp add: error_payload_def encode_string_def)
qed

lemma sublist_error_payload:
  "sublist (escaped part) (error_payload (pre @ part @ post))"
proof -
  have "error_payload (pre @ part @ post) =
          (''{\"error\": \"'' @ escaped pre) @ escaped part @ (escaped post @ ''\"}'')"
    by (simp add: error_payload_eq escaped_append)
  then show ?thesis
    unfolding sublist_def by blast
qed

lemma handlers_registered:
  "(map_of (handlers T config) tool_name = None) = (\<not> registered tool_name)"
  by (auto simp: handlers_def registered_def TOOL_SCHEMAS_def)

lemma plain_registered: "registered n \<Longrightarrow> plain n"
  by (auto simp: registered_def TOOL_SCHEMAS_def plain_def)

lemma dispatch_returns: "\<exists>s w'. dispatch T n args c w = (Inr s, w')"
  by (auto simp: dispatch_def guarded_def split: option.splits sum.splits prod.splits)

text \<open>
  Claim C5. Unknown tool: for a name that matches no registered contract and any
  arguments, \<open>dispatch\<close> returns (it does not raise) the error object whose message is
  \<^verbatim>\<open>Unknown tool: \<close> followed by the name; the payload text holds the name as JSON
  writes it, which is the name itself when it has no character that JSON escapes; no
  handler runs, so the world is untouched.
\<close>

theorem dispatch_unknown_tool:
  "\<not> registered tool_name \<Longrightarrow>
     dispatch T tool_name arguments config w =
       (Inr (json_dumps (JObj [(''error'', JStr (''Unknown tool: '' @ tool_name))])), w)
     \<and> (\<exists>payload. fst (dispatch T tool_name arguments config w) = Inr payload
            \<and> sublist (escaped tool_name) payload
            \<and> (plain tool_name \<longrightarrow> sublist tool_name payload))"
proof -
  assume unknown: "\<not> registered tool_name"
  then have none: "map_of (handlers T config) tool_name = None"
    by (simp add: handlers_registered)
  have res: "dispatch T tool_name arguments config w =
               (Inr (error_payload (''Unknown tool: '' @ tool_name)), w)"
    by (simp add: dispatch_def none)
  have sub: "sublist (escaped tool_name) (error_payload (''Unknown tool: '' @ tool_name @ []))"
    by (rule sublist_error_payload)
  show ?thesis
    using res sub by (auto simp: error_payload_def plain_escaped)
qed

theorem dispatch_unknown_tool_witness:
  "\<not> registered ''foo'' \<and>
   dispatch demo_tools ''foo'' (JObj []) demo_config \<lparr>script = [], trace = []\<rparr> =
     (Inr ''{\"error\": \"Unknown tool: foo\"}'', \<lparr>script = [], trace = []\<rparr>)"
proof -
  have h: "\<not> registered ''foo''"
    by (simp add: registered_def TOOL_SCHEMAS_def)
  have e: "escaped ''Unknown tool: foo'' = ''Unknown tool: foo''"
    by (simp add: escaped_def escape_char_def)
  have e2: "escaped ''error'' = ''error''"
    by (simp add: escaped_def escape_char_def)
  show ?thesis
    using h dispatch_unknown_tool [OF h, of demo_tools "JObj []" demo_config "\<lparr>script = [], trace = []\<rparr>"]
    by (simp add: encode_string_def e e2)
qed

text \<open>
  Claim C4. Handler failure: for a registered tool name and any arguments, \<open>dispatch\<close>
  returns and never raises; and whenever the handler resolved for the name raises an
  exception, \<open>dispatch\<close> returns the error object whose message is
  \<^verbatim>\<open>Tool '<name>' failed: <str(e)>\<close>. The payload text holds the tool name, and the
  failure message as JSON writes it.
\<close>

theorem dispatch_catches_handler_failure:
  "registered tool_name \<Longrightarrow>
     (\<exists>result w'. dispatch T tool_name arguments config w = (Inr result, w'))
     \<and> (\<exists>handler. map_of (handlers T config) tool_name = Some handler
          \<and> (\<forall>e w'. handler arguments w = (Inl e, w') \<longrightarrow>
                (\<exists>payload.
                   dispatch T tool_name arguments config w = (Inr payload, w')
                   \<and> payload = json_dumps (JObj [(''error'',
                        JStr (''Tool '' @ quoted tool_name @ '' failed: '' @ str_exn e))])
                   \<and> sublist tool_name payload
                   \<and> sublist (escaped (str_exn e)) payload)))"
proof -
  assume reg: "registered tool_name"
  then obtain handler where h: "map_of (handlers T config) tool_name = Some handler"
    using handlers_registered [of T config tool_name] by auto
  have pl: "escaped tool_name = tool_name"
    using reg by (simp add: plain_registered plain_escaped)
  have caught: "\<exists>payload.
           dispatch T tool_name arguments config w = (Inr payload, w')
           \<and> payload = json_dumps (JObj [(''error'',
                JStr (''Tool '' @ quoted tool_name @ '' failed: '' @ str_exn e))])
           \<and> sublist tool_name payload
           \<and> sublist (escaped (str_exn e)) payload"
    if raised: "handler arguments w = (Inl e, w')" for e w'
  proof -
    let ?msg = "''Tool '' @ quoted tool_name @ '' failed: '' @ str_exn e"
    have d: "dispatch T tool_name arguments config w = (Inr (error_payload ?msg), w')"
      by (simp add: dispatch_def h raised guarded_def)
    have "sublist (escaped tool_name) (error_payload ((''Tool '' @ [CHR 0x27]) @ tool_name @ ([CHR 0x27] @ '' failed: '' @ str_exn e)))"
      by (rule sublist_error_payload)
    then have s1: "sublist tool_name (error_payload ?msg)"
      by (simp add: pl quoted_def)
    have "sublist (escaped (str_exn e)) (error_payload ((''Tool '' @ quoted tool_name @ '' failed: '') @ str_exn e @ []))"
      by (rule sublist_error_payload)
    then have s2: "sublist (escaped (str_exn e)) (error_payload ?msg)"
      by simp
    show ?thesis
      using d s1 s2 by (simp add: error_payload_def)
  qed
  show ?thesis
    using dispatch_returns [of T tool_name arguments config w] h caught by blast
qed

theorem dispatch_catches_handler_failure_witness:
  "registered ''query_logs''
   \<and> handle_query_logs demo_tools demo_config (JObj [(''filter_str'', JStr ''severity>=ERROR'')])
        \<lparr>script = [], trace = []\<rparr>
      = (Inl (OtherError ''connection reset''),
         \<lparr>script = [], trace = [(''query_logs'', [JStr ''severity>=ERROR'', JInt 50])]\<rparr>)
   \<and> dispatch demo_tools ''query_logs'' (JObj [(''filter_str'', JStr ''severity>=ERROR'')]) demo_config
        \<lparr>script = [], trace = []\<rparr>
      = (Inr ''{\"error\": \"Tool 'query_logs' failed: connection reset\"}'',
         \<lparr>script = [], trace = [(''query_logs'', [JStr ''severity>=ERROR'', JInt 50])]\<rparr>)"
proof -
  have reg: "registered ''query_logs''"
    by (simp add: registered_def TOOL_SCHEMAS_def)
  have hd: "map_of (handlers demo_tools demo_config) ''query_logs'' = Some (handle_query_logs demo_tools demo_config)"
    by (simp add: handlers_def)
  have raised: "handle_query_logs demo_tools demo_config (JObj [(''filter_str'', JStr ''severity>=ERROR'')])
        \<lparr>script = [], trace = []\<rparr>
      = (Inl (OtherError ''connection reset''),
         \<lparr>script = [], trace = [(''query_logs'', [JStr ''severity>=ERROR'', JInt 50])]\<rparr>)"
    by (simp add: handle_query_logs_def demo_tools_def demo_enter_def value_or_def)
  have e: "escaped ''Tool 'query_logs' failed: connection reset'' = ''Tool 'query_logs' failed: connection reset''"
    by (simp add: escaped_def escape_char_def)
  have e2: "escaped ''error'' = ''error''"
    by (simp add: escaped_def escape_char_def)
  show ?thesis
    using reg raised hd
      dispatch_catches_handler_failure [OF reg, of demo_tools "JObj [(''filter_str'', JStr ''severity>=ERROR'')]"
        demo_config "\<lparr>script = [], trace = []\<rparr>"]
    by (auto simp: encode_string_def e e2 quoted_def)
qed

subsection \<open>Arguments: defaults and required keys\<close>

lemma dispatch_handler:
  "map_of (handlers T c) n = Some h \<Longrightarrow> dispatch T n args c w = guarded n (h args w)"
  by (simp add: dispatch_def)

lemma guarded_KeyError:
  "guarded n (Inl (KeyError k), w) = (Inr (missing_payload n k), w)"
  by (simp add: guarded_def missing_payload_def)

lemma dispatch_query_logs:
  "dispatch T ''query_logs'' (JObj kvs) c w =
     (case map_of kvs ''filter_str'' of
        None \<Rightarrow> (Inr (missing_payload ''query_logs'' ''filter_str''), w)
      | Some v \<Rightarrow> guarded ''query_logs''
          (gcp_logging_query_logs T c v (value_or kvs ''limit'' (JInt 50)) w))"
  by (simp add: dispatch_handler [of T c _ "handle_query_logs T c"] handlers_def
        handle_query_logs_def guarded_KeyError split: option.splits)

lemma dispatch_list_log_entries:
  "dispatch T ''list_log_entries'' (JObj kvs) c w =
     (case map_of kvs ''function_name'' of
        None \<Rightarrow> (Inr (missing_payload ''list_log_entries'' ''function_name''), w)
      | Some v \<Rightarrow> guarded ''list_log_entries''
          (gcp_logging_list_log_entries T c v (value_or kvs ''hours_ago'' (JInt 24))
             (value_or kvs ''limit'' (JInt 50)) w))"
  by (simp add: dispatch_handler [of T c _ "handle_list_log_entries T c"] handlers_def
        handle_list_log_entries_def guarded_KeyError split: option.splits)

lemma dispatch_list_repo_files:
  "dispatch T ''list_repo_files'' (JObj kvs) c w =
     guarded ''list_repo_files'' (github_list_repo_files T c (value_or kvs ''path'' (JStr '''')) w)"
  by (simp add: dispatch_handler [of T c _ "handle_list_repo_files T c"] handlers_def
        handle_list_repo_files_def)

lemma dispatch_get_file_content:
  "dispatch T ''get_file_content'' (JObj kvs) c w =
     (case map_of kvs ''path'' of
        None \<Rightarrow> (Inr (missing_payload ''get_file_content'' ''path''), w)
      | Some v \<Rightarrow> guarded ''get_file_content''
          (github_get_file_content T c v (value_or kvs ''ref'' (JStr ''main'')) w))"
  by (simp add: dispatch_handler [of T c _ "handle_get_file_content T c"] handlers_def
        handle_get_file_content_def guarded_KeyError split: option.splits)

lemma dispatch_create_branch:
  "dispatch T ''create_branch'' (JObj kvs) c w =
     (case map_of kvs ''branch_name'' of
        None \<Rightarrow> (Inr (missing_payload ''create_branch'' ''branch_name''), w)
      | Some v \<Rightarrow> guarded ''create_branch'' (github_create_branch T c v w))"
  by (simp add: dispatch_handler [of T c _ "handle_create_branch T c"] handlers_def
        handle_create_branch_def guarded_KeyError split: option.splits)

lemma dispatch_commit_file_change:
  "dispatch T ''commit_file_change'' (JObj kvs) c w =
     (case map_of kvs ''path'' of
        None \<Rightarrow> (Inr (missing_payload ''commit_file_change'' ''path''), w)
      | Some p \<Rightarrow>
     (case map_of kvs ''content'' of
        None \<Rightarrow> (Inr (missing_payload ''commit_file_change'' ''content''), w)
      | Some t \<Rightarrow>
     (case map_of kvs ''message'' of
        None \<Rightarrow> (Inr (missing_payload ''commit_file_change'' ''message''), w)
      | Some m \<Rightarrow>
     (case map_of kvs ''branch'' of
        None \<Rightarrow> (Inr (missing_payload ''commit_file_change'' ''branch''), w)
      | Some b \<Rightarrow> guarded ''commit_file_change'' (github_commit_file_change T c p t m b w)))))"
  by (simp add: dispatch_handler [of T c _ "handle_commit_file_change T c"] handlers_def
        handle_commit_file_change_def guarded_KeyError split: option.splits)

lemma dispatch_create_pull_request:
  "dispatch T ''create_pull_request'' (JObj kvs) c w =
     (case map_of kvs ''title'' of
        None \<Rightarrow> (Inr (missing_payload ''create_pull_request'' ''title''), w)
      | Some t \<Rightarrow>
     (case map_of kvs ''body'' of
        None \<Rightarrow> (Inr (missing_payload ''create_pull_request'' ''body''), w)
      | Some b \<Rightarrow>
     (case map_of kvs ''head_branch'' of
        None \<Rightarrow> (Inr (missing_payload ''create_pull_request'' ''head_branch''), w)
      | Some h \<Rightarrow> guarded ''create_pull_request''
          (github_create_pull_request T c t b h (value_or kvs ''base_branch'' (JStr ''main'')) w))))"
  by (simp add: dispatch_handler [of T c _ "handle_create_pull_request T c"] handlers_def
        handle_create_pull_request_def guarded_KeyError split: option.splits)

lemma required_missing:
  "s \<in> set TOOL_SCHEMAS \<Longrightarrow> r \<in> set (schema_required s) \<Longrightarrow> map_of kvs r = None \<Longrightarrow>
     \<exists>key\<in>set (schema_required s). map_of kvs key = None
        \<and> dispatch T (schema_name s) (JObj kvs) c w = (Inr (missing_payload (schema_name s) key), w)"
  by (auto simp: TOOL_SCHEMAS_def dispatch_query_logs dispatch_list_log_entries
        dispatch_get_file_content dispatch_create_branch dispatch_commit_file_change
        dispatch_create_pull_request split: option.splits)

text \<open>
  Claim C10. Defaults and required arguments: for an argument mapping, \<open>dispatch\<close> calls
  the tool function with the value of each optional parameter, or with its fixed default
  when the mapping lacks it (limit 50, hours_ago 24, path the empty string, ref
  \<^verbatim>\<open>main\<close>, base_branch \<^verbatim>\<open>main\<close>); the call stands inside the catch-all. For every
  contract of \<^verbatim>\<open>TOOL_SCHEMAS\<close>, a mapping that lacks one of its required parameters
  makes \<open>dispatch\<close> return (not raise) the error object for that tool, naming the first
  missing key, without entering the tool function.
\<close>

theorem dispatch_defaults_and_required:
  "(\<forall>v. map_of kvs ''filter_str'' = Some v \<longrightarrow>
      dispatch T ''query_logs'' (JObj kvs) c w =
        guarded ''query_logs''
          (gcp_logging_query_logs T c v (value_or kvs ''limit'' (JInt 50)) w))
   \<and> (\<forall>v. map_of kvs ''function_name'' = Some v \<longrightarrow>
      dispatch T ''list_log_entries'' (JObj kvs) c w =
        guarded ''list_log_entries''
          (gcp_logging_list_log_entries T c v (value_or kvs ''hours_ago'' (JInt 24))
             (value_or kvs ''limit'' (JInt 50)) w))
   \<and> dispatch T ''list_repo_files'' (JObj kvs) c w =
        guarded ''list_repo_files''
          (github_list_repo_files T c (value_or kvs ''path'' (JStr [])) w)
   \<and> (\<forall>v. map_of kvs ''path'' = Some v \<longrightarrow>
      dispatch T ''get_file_content'' (JObj kvs) c w =
        guarded ''get_file_content''
          (github_get_file_content T c v (value_or kvs ''ref'' (JStr ''main'')) w))
   \<and> (\<forall>t b h. map_of kvs ''title'' = Some t \<and> map_of kvs ''body'' = Some b
          \<and> map_of kvs ''head_branch'' = Some h \<longrightarrow>
      dispatch T ''create_pull_request'' (JObj kvs) c w =
        guarded ''create_pull_request''
          (github_create_pull_request T c t b h (value_or kvs ''base_branch'' (JStr ''main'')) w))
   \<and> (\<forall>k d. map_of kvs k = None \<longrightarrow> value_or kvs k d = d)
   \<and> (\<forall>s\<in>set TOOL_SCHEMAS. \<forall>r\<in>set (schema_required s). map_of kvs r = None \<longrightarrow>
        (\<exists>key\<in>set (schema_required s). map_of kvs key = None
           \<and> dispatch T (schema_name s) (JObj kvs) c w =
               (Inr (json_dumps (JObj [(''error'',
                  JStr (''Tool '' @ quoted (schema_name s) @ '' failed: '' @ quoted key))])), w)))"
proof -
  have d: "\<forall>k d. map_of kvs k = None \<longrightarrow> value_or kvs k d = d"
    by (simp add: value_or_def)
  have m: "\<forall>s\<in>set TOOL_SCHEMAS. \<forall>r\<in>set (schema_required s). map_of kvs r = None \<longrightarrow>
        (\<exists>key\<in>set (schema_required s). map_of kvs key = None
           \<and> dispatch T (schema_name s) (JObj kvs) c w =
               (Inr (json_dumps (JObj [(''error'',
                  JStr (''Tool '' @ quoted (schema_name s) @ '' failed: '' @ quoted key))])), w))"
    using required_missing [of _ _ kvs T c w]
    unfolding missing_payload_def error_payload_def by blast
  show ?thesis
    using d m
    by (simp add: dispatch_query_logs dispatch_list_log_entries dispatch_list_repo_files
          dispatch_get_file_content dispatch_create_pull_request)
qed

theorem dispatch_defaults_and_required_witness:
  "map_of [(''function_name'', JStr ''checkout''), (''filter_str'', JStr ''severity>=ERROR''),
           (''path'', JStr ''main.py''), (''title'', JStr ''Fix''), (''body'', JStr ''Why''),
           (''head_branch'', JStr ''fix'')] ''function_name'' = Some (JStr ''checkout'')
   \<and> dispatch demo_tools ''list_log_entries''
        (JObj [(''function_name'', JStr ''checkout''), (''filter_str'', JStr ''severity>=ERROR''),
               (''path'', JStr ''main.py''), (''title'', JStr ''Fix''), (''body'', JStr ''Why''),
               (''head_branch'', JStr ''fix'')])
        demo_config \<lparr>script = [], trace = []\<rparr>
      = (Inr ''[]'', \<lparr>script = [],
           trace = [(''list_log_entries'', [JStr ''checkout'', JInt 24, JInt 50])]\<rparr>)
   \<and> dispatch demo_tools ''create_pull_request''
        (JObj [(''function_name'', JStr ''checkout''), (''filter_str'', JStr ''severity>=ERROR''),
               (''path'', JStr ''main.py''), (''title'', JStr ''Fix''), (''body'', JStr ''Why''),
               (''head_branch'', JStr ''fix'')])
        demo_config \<lparr>script = [], trace = []\<rparr>
      = (Inr ''{}'', \<lparr>script = [],
           trace = [(''create_pull_request'',
                     [JStr ''Fix'', JStr ''Why'', JStr ''fix'', JStr ''main''])]\<rparr>)
   \<and> dispatch demo_tools ''create_branch''
        (JObj [(''function_name'', JStr ''checkout''), (''filter_str'', JStr ''severity>=ERROR''),
               (''path'', JStr ''main.py''), (''title'', JStr ''Fix''), (''body'', JStr ''Why''),
               (''head_branch'', JStr ''fix'')])
        demo_config \<lparr>script = [], trace = []\<rparr>
      = (Inr ''{\"error\": \"Tool 'create_branch' failed: 'branch_name'\"}'',
         \<lparr>script = [], trace = []\<rparr>)"
proof -
  let ?kvs = "[(''function_name'', JStr ''checkout''), (''filter_str'', JStr ''severity>=ERROR''),
           (''path'', JStr ''main.py''), (''title'', JStr ''Fix''), (''body'', JStr ''Why''),
           (''head_branch'', JStr ''fix'')]"
  let ?w = "\<lparr>script = [], trace = []\<rparr>"
  note inst = dispatch_defaults_and_required [of ?kvs demo_tools demo_config ?w]
  have e: "escaped (''Tool 'create_branch' failed: 'branch_name'' @ [CHR 0x27])
             = ''Tool 'create_branch' failed: 'branch_name'' @ [CHR 0x27]"
    by (simp add: escaped_def escape_char_def)
  have e2: "escaped ''error'' = ''error''"
    by (simp add: escaped_def escape_char_def)
  have s: "\<lparr>schema_name = ''create_branch'', schema_properties = [(''branch_name'', ''string'')],
            schema_required = [''branch_name'']\<rparr> \<in> set TOOL_SCHEMAS"
    by (simp add: TOOL_SCHEMAS_def)
  have a: "dispatch demo_tools ''list_log_entries'' (JObj ?kvs) demo_config ?w
      = (Inr ''[]'', \<lparr>script = [],
           trace = [(''list_log_entries'', [JStr ''checkout'', JInt 24, JInt 50])]\<rparr>)"
    using inst by (simp add: guarded_def demo_tools_def demo_enter_def value_or_def)
  have b: "dispatch demo_tools ''create_pull_request'' (JObj ?kvs) demo_config ?w
      = (Inr ''{}'', \<lparr>script = [],
           trace = [(''create_pull_request'',
                     [JStr ''Fix'', JStr ''Why'', JStr ''fix'', JStr ''main''])]\<rparr>)"
    using inst by (simp add: guarded_def demo_tools_def demo_enter_def value_or_def)
  have "\<forall>r\<in>set [''branch_name'']. map_of ?kvs r = None \<longrightarrow>
        (\<exists>key\<in>set [''branch_name'']. map_of ?kvs key = None
           \<and> dispatch demo_tools ''create_branch'' (JObj ?kvs) demo_config ?w =
               (Inr (json_dumps (JObj [(''error'',
                  JStr (''Tool '' @ quoted ''create_branch'' @ '' failed: '' @ quoted key))])), ?w))"
    using inst s by (metis (no_types, lifting) tool_schema.select_convs(1,3))
  then have c: "dispatch demo_tools ''create_branch'' (JObj ?kvs) demo_config ?w
      = (Inr ''{\"error\": \"Tool 'create_branch' failed: 'branch_name'\"}'', ?w)"
    using e by (simp add: quoted_def encode_string_def e2)
  show ?thesis
    using a b c by simp
qed

subsection \<open>Argument text\<close>

lemma deep_text_other: "length s \<noteq> 1500 \<Longrightarrow> (s = deep_text) = False"
  by (auto simp: deep_text_def)

lemma demo_json_loads_deep:
  "demo_json_loads deep_text =
     Inl (RecursionError
       ''maximum recursion depth exceeded while decoding a JSON array from a unicode string'')"
  by (simp add: demo_json_loads_def)

lemma demo_json_loads_empty: "demo_json_loads ''{}'' = Inr (JObj [])"
  by (simp add: demo_json_loads_def deep_text_other)

lemma demo_json_loads_bad:
  "demo_json_loads ''{path: '' =
     Inl (JSONDecodeError
       ''Expecting property name enclosed in double quotes: line 1 column 2 (char 1)'')"
  by (simp add: demo_json_loads_def deep_text_other)

text \<open>
  Claim C6, as stated, fails: on a text nested too deep \<^verbatim>\<open>json.loads\<close> raises
  \<^verbatim>\<open>RecursionError\<close>, which the \<^verbatim>\<open>except\<close> clause does not catch; the exception leaves
  the loop, no handler is entered and no tool message is appended.
\<close>

theorem malformed_arguments_abort_counterexample:
  "json_loads demo_services deep_text =
     Inl (RecursionError
       ''maximum recursion depth exceeded while decoding a JSON array from a unicode string'')
   \<and> call_tool demo_services
        \<lparr>tc_id = ''call_9'', tc_name = ''list_repo_files'', tc_arguments = deep_text\<rparr>
        (demo_agent 1 [])
      = (Some (RecursionError
           ''maximum recursion depth exceeded while decoding a JSON array from a unicode string''),
         demo_agent 1 [])
   \<and> messages (demo_agent 1 []) = []
   \<and> trace (world (demo_agent 1 [])) = []"
  by (simp add: call_tool_def load_arguments_def demo_services_def demo_json_loads_deep
        demo_agent_def)

text \<open>
  Claim C6, amended. When \<^verbatim>\<open>json.loads\<close> raises \<^verbatim>\<open>JSONDecodeError\<close> on the raw
  arguments of a request, the request is dispatched with the empty mapping: the handler
  resolved for the name is called with it (inside the catch-all), \<open>dispatch\<close> returns a
  result, the tool message for the request is appended, and the inner loop goes on with
  the remaining requests. Any other exception that \<^verbatim>\<open>json.loads\<close> raises is not caught:
  it leaves the loop with the agent as it was, no handler entered and no tool message
  appended for the request.
\<close>

theorem malformed_arguments_empty_mapping:
  "(\<forall>e. json_loads S (tc_arguments tc) = Inl e \<and> is_JSONDecodeError e \<longrightarrow>
     (\<exists>result w'.
        dispatch (tool_functions S) (tc_name tc) (JObj []) (agent_config a) (world a) = (Inr result, w')
        \<and> call_tool S tc a =
            (None, a\<lparr>world := w', messages := messages a @ [ToolDict (tc_id tc) result]\<rparr>)
        \<and> call_tools S (tc # rest) a =
            call_tools S rest (a\<lparr>world := w', messages := messages a @ [ToolDict (tc_id tc) result]\<rparr>)
        \<and> (\<forall>handler. map_of (handlers (tool_functions S) (agent_config a)) (tc_name tc) = Some handler
              \<longrightarrow> guarded (tc_name tc) (handler (JObj []) (world a)) = (Inr result, w'))))
   \<and> (\<forall>e. json_loads S (tc_arguments tc) = Inl e \<and> \<not> is_JSONDecodeError e \<longrightarrow>
        call_tool S tc a = (Some e, a) \<and> call_tools S (tc # rest) a = (Some e, a))"
proof -
  have caught: "\<exists>result w'.
        dispatch (tool_functions S) (tc_name tc) (JObj []) (agent_config a) (world a) = (Inr result, w')
        \<and> call_tool S tc a =
            (None, a\<lparr>world := w', messages := messages a @ [ToolDict (tc_id tc) result]\<rparr>)
        \<and> call_tools S (tc # rest) a =
            call_tools S rest (a\<lparr>world := w', messages := messages a @ [ToolDict (tc_id tc) result]\<rparr>)
        \<and> (\<forall>handler. map_of (handlers (tool_functions S) (agent_config a)) (tc_name tc) = Some handler
              \<longrightarrow> guarded (tc_name tc) (handler (JObj []) (world a)) = (Inr result, w'))"
    if bad: "json_loads S (tc_arguments tc) = Inl e" and decode: "is_JSONDecodeError e" for e
  proof -
    have empty: "load_arguments S (tc_arguments tc) = Inr (JObj [])"
      by (simp add: load_arguments_def bad decode)
    obtain result w' where
      d: "dispatch (tool_functions S) (tc_name tc) (JObj []) (agent_config a) (world a) = (Inr result, w')"
      using dispatch_returns [of "tool_functions S" "tc_name tc" "JObj []" "agent_config a" "world a"]
      by blast
    have ct: "call_tool S tc a =
              (None, a\<lparr>world := w', messages := messages a @ [ToolDict (tc_id tc) result]\<rparr>)"
      by (simp add: call_tool_def empty d)
    have h: "\<forall>handler. map_of (handlers (tool_functions S) (agent_config a)) (tc_name tc) = Some handler
                \<longrightarrow> guarded (tc_name tc) (handler (JObj []) (world a)) = (Inr result, w')"
      using d by (auto simp: dispatch_def)
    show ?thesis
      using d ct h by simp
  qed
  have passed: "call_tool S tc a = (Some e, a) \<and> call_tools S (tc # rest) a = (Some e, a)"
    if bad: "json_loads S (tc_arguments tc) = Inl e" and other: "\<not> is_JSONDecodeError e" for e
    by (simp add: call_tool_def load_arguments_def bad other)
  show ?thesis
    using caught passed by blast
qed

theorem malformed_arguments_empty_mapping_witness:
  "json_loads demo_services ''{path: '' =
     Inl (JSONDecodeError
       ''Expecting property name enclosed in double quotes: line 1 column 2 (char 1)'')
   \<and> is_JSONDecodeError (JSONDecodeError
       ''Expecting property name enclosed in double quotes: line 1 column 2 (char 1)'')
   \<and> call_tool demo_services \<lparr>tc_id = ''call_1'', tc_name = ''list_repo_files'', tc_arguments = ''{path: ''\<rparr>
        (demo_agent 1 [])
      = (None, (demo_agent 1 [])
           \<lparr>world := \<lparr>script = [], trace = [(''list_repo_files'', [JStr []])]\<rparr>,
            messages := [ToolDict ''call_1'' ''[]'']\<rparr>)
   \<and> json_loads demo_services deep_text =
       Inl (RecursionError
         ''maximum recursion depth exceeded while decoding a JSON array from a unicode string'')
   \<and> is_JSONDecodeError (RecursionError
         ''maximum recursion depth exceeded while decoding a JSON array from a unicode string'')
       = False
   \<and> call_tools demo_services
        [\<lparr>tc_id = ''call_9'', tc_name = ''list_repo_files'', tc_arguments = deep_text\<rparr>,
         \<lparr>tc_id = ''call_1'', tc_name = ''list_repo_files'', tc_arguments = ''{path: ''\<rparr>]
        (demo_agent 1 [])
      = (Some (RecursionError
           ''maximum recursion depth exceeded while decoding a JSON array from a unicode string''),
         demo_agent 1 [])"
proof -
  let ?tc = "\<lparr>tc_id = ''call_1'', tc_name = ''list_repo_files'', tc_arguments = ''{path: ''\<rparr>"
  let ?deep = "\<lparr>tc_id = ''call_9'', tc_name = ''list_repo_files'', tc_arguments = deep_text\<rparr>"
  let ?je = "JSONDecodeError
       ''Expecting property name enclosed in double quotes: line 1 column 2 (char 1)''"
  let ?re = "RecursionError
       ''maximum recursion depth exceeded while decoding a JSON array from a unicode string''"
  have bad: "json_loads demo_services (tc_arguments ?tc) = Inl ?je"
    by (simp add: demo_services_def demo_json_loads_bad)
  have deep: "json_loads demo_services (tc_arguments ?deep) = Inl ?re"
    by (simp add: demo_services_def demo_json_loads_deep)
  have hd: "map_of (handlers (tool_functions demo_services) (agent_config (demo_agent 1 []))) (tc_name ?tc)
            = Some (handle_list_repo_files demo_tools demo_config)"
    by (simp add: handlers_def demo_services_def demo_agent_def)
  have run: "guarded ''list_repo_files'' (handle_list_repo_files demo_tools demo_config (JObj []) (world (demo_agent 1 [])))
       = (Inr ''[]'', \<lparr>script = [], trace = [(''list_repo_files'', [JStr []])]\<rparr>)"
    by (simp add: guarded_def handle_list_repo_files_def demo_tools_def demo_enter_def
          value_or_def demo_agent_def)
  have first: "call_tool demo_services ?tc (demo_agent 1 [])
      = (None, (demo_agent 1 [])
           \<lparr>world := \<lparr>script = [], trace = [(''list_repo_files'', [JStr []])]\<rparr>,
            messages := [ToolDict ''call_1'' ''[]'']\<rparr>)"
    using bad hd run
      malformed_arguments_empty_mapping [of demo_services ?tc "demo_agent 1 []" "[]", THEN conjunct1]
    by (auto simp: demo_agent_def)
  have second: "call_tools demo_services [?deep, ?tc] (demo_agent 1 []) = (Some ?re, demo_agent 1 [])"
    using deep
      malformed_arguments_empty_mapping [of demo_services ?deep "demo_agent 1 []" "[?tc]", THEN conjunct2]
    by auto
  show ?thesis
    using bad deep first second by simp
qed

section \<open>Properties of the driver loop\<close>

lemma call_tool_frame:
  "call_tool S tc a = (r, a') \<Longrightarrow>
     prefix (messages a) (messages a') \<and> model_calls a' = model_calls a
     \<and> agent_config a' = agent_config a \<and> max_iterations a' = max_iterations a"
  by (auto simp: call_tool_def split: sum.splits prod.splits)

lemma call_tools_frame:
  "call_tools S tcs a = (r, a') \<Longrightarrow>
     prefix (messages a) (messages a') \<and> model_calls a' = model_calls a
     \<and> agent_config a' = agent_config a \<and> max_iterations a' = max_iterations a"
proof (induction tcs arbitrary: a)
  case Nil
  then show ?case by simp
next
  case (Cons tc tcs)
  obtain r1 a1 where one: "call_tool S tc a = (r1, a1)"
    by (cases "call_tool S tc a")
  note f1 = call_tool_frame [OF one]
  show ?case
  proof (cases r1)
    case None
    with one Cons.prems have "call_tools S tcs a1 = (r, a')"
      by simp
    from Cons.IH [OF this] f1 show ?thesis
      by (auto intro: prefix_order.trans)
  next
    case (Some e)
    with one Cons.prems have "a' = a1"
      by simp
    with f1 show ?thesis
      by simp
  qed
qed

lemma call_tool_appends:
  assumes "\<forall>e. json_loads S (tc_arguments tc) = Inl e \<longrightarrow> is_JSONDecodeError e"
  shows "\<exists>result w'. call_tool S tc a =
      (None, a\<lparr>world := w', messages := messages a @ [ToolDict (tc_id tc) result]\<rparr>)"
proof -
  have "\<exists>arguments. load_arguments S (tc_arguments tc) = Inr arguments"
  proof (cases "json_loads S (tc_arguments tc)")
    case (Inl e)
    with assms show ?thesis
      by (simp add: load_arguments_def)
  next
    case (Inr v)
    then show ?thesis
      by (simp add: load_arguments_def)
  qed
  then obtain arguments where loaded: "load_arguments S (tc_arguments tc) = Inr arguments"
    by blast
  obtain result w' where
    "dispatch (tool_functions S) (tc_name tc) arguments (agent_config a) (world a) = (Inr result, w')"
    using dispatch_returns [of "tool_functions S" "tc_name tc" arguments "agent_config a" "world a"]
    by blast
  then have "call_tool S tc a =
      (None, a\<lparr>world := w', messages := messages a @ [ToolDict (tc_id tc) result]\<rparr>)"
    by (simp add: call_tool_def loaded)
  then show ?thesis
    by (intro exI)
qed

lemma call_tools_appends:
  assumes "\<forall>tc\<in>set tcs. \<forall>e. json_loads S (tc_arguments tc) = Inl e \<longrightarrow> is_JSONDecodeError e"
  shows "\<exists>results a'. call_tools S tcs a = (None, a')
      \<and> length results = length tcs
      \<and> messages a' = messages a @ tool_dicts tcs results
      \<and> model_calls a' = model_calls a
      \<and> agent_config a' = agent_config a
      \<and> max_iterations a' = max_iterations a"
  using assms
proof (induction tcs arbitrary: a)
  case Nil
  show ?case by (simp add: tool_dicts_def)
next
  case (Cons tc tcs)
  have this_one: "\<forall>e. json_loads S (tc_arguments tc) = Inl e \<longrightarrow> is_JSONDecodeError e"
    and others: "\<forall>tc\<in>set tcs. \<forall>e. json_loads S (tc_arguments tc) = Inl e \<longrightarrow> is_JSONDecodeError e"
    using Cons.prems by simp_all
  obtain result w' where one: "call_tool S tc a =
      (None, a\<lparr>world := w', messages := messages a @ [ToolDict (tc_id tc) result]\<rparr>)"
    using call_tool_appends [OF this_one, of a] by blast
  let ?a1 = "a\<lparr>world := w', messages := messages a @ [ToolDict (tc_id tc) result]\<rparr>"
  obtain results a' where rest: "call_tools S tcs ?a1 = (None, a')"
      "length results = length tcs"
      "messages a' = messages ?a1 @ tool_dicts tcs results"
      "model_calls a' = model_calls ?a1" "agent_config a' = agent_config ?a1"
      "max_iterations a' = max_iterations ?a1"
    using Cons.IH [OF others, of ?a1] by blast
  have "call_tools S (tc # tcs) a = (None, a')"
    by (simp add: one rest(1))
  moreover have "length (result # results) = length (tc # tcs)"
    by (simp add: rest(2))
  moreover have "messages a' = messages a @ tool_dicts (tc # tcs) (result # results)"
    by (simp add: rest(3) tool_dicts_def)
  ultimately show ?case
    using rest(4,5,6) by (metis agent.select_convs agent.update_convs agent.surjective)
qed

lemma tool_dicts_nth:
  "length results = length tcs \<Longrightarrow> i < length tcs \<Longrightarrow>
     tool_dicts tcs results ! i = ToolDict (tc_id (tcs ! i)) (results ! i)"
  by (simp add: tool_dicts_def)

lemma length_tool_dicts:
  "length results = length tcs \<Longrightarrow> length (tool_dicts tcs results) = length tcs"
  by (simp add: tool_dicts_def)

text \<open>An iteration with requests ends as its inner loop ends.\<close>

lemma iteration_body_requests:
  assumes reply: "chat_completions_create S (messages a) (world a) = (Inr message, w')"
    and some: "requests message \<noteq> []"
    and tools: "call_tools S (requests message)
          (a\<lparr>world := w', model_calls := Suc (model_calls a),
             messages := messages a @ [AssistantMessage message]\<rparr>) = (r, a')"
  shows "iteration_body S a = (map_option Raised r, a')"
  using some by (cases r) (simp_all add: iteration_body_def reply tools)

lemma iteration_body_tool_round:
  assumes reply: "chat_completions_create S (messages a) (world a) = (Inr message, w')"
    and some: "requests message \<noteq> []"
    and loads: "\<forall>tc\<in>set (requests message).
                  \<forall>e. json_loads S (tc_arguments tc) = Inl e \<longrightarrow> is_JSONDecodeError e"
  shows "\<exists>results a'. iteration_body S a = (None, a')
      \<and> length results = length (requests message)
      \<and> messages a' = messages a @ AssistantMessage message # tool_dicts (requests message) results
      \<and> model_calls a' = Suc (model_calls a)
      \<and> agent_config a' = agent_config a
      \<and> max_iterations a' = max_iterations a"
proof -
  let ?a2 = "a\<lparr>world := w', model_calls := Suc (model_calls a),
                messages := messages a @ [AssistantMessage message]\<rparr>"
  obtain results a' where tools: "call_tools S (requests message) ?a2 = (None, a')"
      "length results = length (requests message)"
      "messages a' = messages ?a2 @ tool_dicts (requests message) results"
      "model_calls a' = model_calls ?a2" "agent_config a' = agent_config ?a2"
      "max_iterations a' = max_iterations ?a2"
    using call_tools_appends [OF loads, of ?a2] by blast
  have "iteration_body S a = (None, a')"
    using iteration_body_requests [OF reply some tools(1)] by simp
  then show ?thesis
    using tools(2-6) by (intro exI [of _ results] exI [of _ a']) simp
qed

lemma iteration_body_frame:
  assumes "iteration_body S a = (out, a')"
  shows "prefix (messages a) (messages a') \<and> model_calls a' = Suc (model_calls a)
         \<and> agent_config a' = agent_config a \<and> max_iterations a' = max_iterations a"
proof (cases "chat_completions_create S (messages a) (world a)")
  case (Pair reply w')
  show ?thesis
  proof (cases reply)
    case (Inl e)
    with Pair assms show ?thesis
      by (auto simp: iteration_body_def)
  next
    case (Inr message)
    show ?thesis
    proof (cases "requests message = []")
      case True
      with Pair Inr assms show ?thesis
        by (auto simp: iteration_body_def Let_def)
    next
      case False
      let ?a2 = "a\<lparr>world := w', model_calls := Suc (model_calls a),
                    messages := messages a @ [AssistantMessage message]\<rparr>"
      obtain r a3 where tools: "call_tools S (requests message) ?a2 = (r, a3)"
        by (cases "call_tools S (requests message) ?a2")
      have reply': "chat_completions_create S (messages a) (world a) = (Inr message, w')"
        using Pair Inr by simp
      have "a' = a3"
        using iteration_body_requests [OF reply' False tools] assms by simp
      then show ?thesis
        using call_tools_frame [OF tools] by (auto dest: append_prefixD)
    qed
  qed
qed

lemma iteration_body_continues:
  assumes "iteration_body S a = (None, a')"
  shows "prefix (messages a) (messages a') \<and> model_calls a' = Suc (model_calls a)
         \<and> agent_config a' = agent_config a \<and> max_iterations a' = max_iterations a"
  using assms by (rule iteration_body_frame)

lemma iteration_body_model_calls:
  "model_calls (snd (iteration_body S a)) = Suc (model_calls a)"
  using iteration_body_frame [of S a "fst (iteration_body S a)" "snd (iteration_body S a)"]
  by simp

lemma run_loop_model_calls:
  "model_calls (snd (run_loop S its a)) \<le> model_calls a + length its"
proof (induction its arbitrary: a)
  case Nil
  show ?case by simp
next
  case (Cons i its)
  have step: "model_calls (snd (iteration_body S a)) = Suc (model_calls a)"
    by (rule iteration_body_model_calls)
  show ?case
  proof (cases "iteration_body S a")
    case (Pair out a')
    with step have a': "model_calls a' = Suc (model_calls a)" by simp
    show ?thesis
    proof (cases out)
      case None
      with Pair Cons.IH [of a'] a' show ?thesis by simp
    next
      case (Some res)
      with Pair a' show ?thesis by simp
    qed
  qed
qed

lemma after_iterations_run_loop:
  "after_iterations S a k = Some a' \<Longrightarrow> k \<le> length its \<Longrightarrow>
     run_loop S its a = run_loop S (drop k its) a'"
proof (induction k arbitrary: a')
  case 0
  then show ?case by simp
next
  case (Suc k)
  from Suc.prems(1) obtain b where b: "after_iterations S a k = Some b"
    and step: "iteration_body S b = (None, a')"
    by (auto split: option.splits prod.splits)
  from Suc.prems(2) have k: "k < length its" by simp
  have "run_loop S its a = run_loop S (drop k its) b"
    using Suc.IH [OF b] k by simp
  also have "drop k its = its ! k # drop (Suc k) its"
    using k by (simp add: Cons_nth_drop_Suc)
  also have "run_loop S (its ! k # drop (Suc k) its) b = run_loop S (drop (Suc k) its) a'"
    by (simp add: step)
  finally show ?case .
qed

lemma after_iterations_frame:
  "after_iterations S a k = Some a' \<Longrightarrow>
     model_calls a' = model_calls a + k \<and> prefix (messages a) (messages a')
     \<and> agent_config a' = agent_config a \<and> max_iterations a' = max_iterations a"
proof (induction k arbitrary: a')
  case 0
  then show ?case by simp
next
  case (Suc k)
  from Suc.prems obtain b where b: "after_iterations S a k = Some b"
    and step: "iteration_body S b = (None, a')"
    by (auto split: option.splits prod.splits)
  from Suc.IH [OF b] iteration_body_continues [OF step]
  show ?case by (auto intro: prefix_order.trans)
qed

lemma after_iterations_earlier:
  "after_iterations S a k = Some a' \<Longrightarrow> j \<le> k \<Longrightarrow>
     \<exists>b. after_iterations S a j = Some b \<and> prefix (messages b) (messages a')"
proof (induction k arbitrary: a')
  case 0
  then show ?case by simp
next
  case (Suc k)
  from Suc.prems(1) obtain b where b: "after_iterations S a k = Some b"
    and step: "iteration_body S b = (None, a')"
    by (auto split: option.splits prod.splits)
  have grow: "prefix (messages b) (messages a')"
    using iteration_body_continues [OF step] by simp
  show ?case
  proof (cases "j = Suc k")
    case True
    with Suc.prems(1) show ?thesis by simp
  next
    case False
    with Suc.prems(2) have "j \<le> k" by simp
    from Suc.IH [OF b this] obtain c where "after_iterations S a j = Some c"
      and "prefix (messages c) (messages b)" by blast
    with grow show ?thesis by (auto intro: prefix_order.trans)
  qed
qed

lemma seeded_frame:
  "model_calls (seeded S a) = model_calls a \<and> world (seeded S a) = world a
   \<and> agent_config (seeded S a) = agent_config a \<and> max_iterations (seeded S a) = max_iterations a"
  by (simp add: seeded_def split: option.splits)

lemma run_seeded:
  "config_ok (agent_config a) \<Longrightarrow> run S a = run_loop S [1..max_iterations a] (seeded S a)"
  by (auto simp: run_def config_ok_def seeded_def Let_def)

text \<open>
  Claim C3, as stated, fails: the model asks for one tool call whose argument text is
  nested too deep; \<^verbatim>\<open>json.loads\<close> raises \<^verbatim>\<open>RecursionError\<close>, which leaves \<^verbatim>\<open>run\<close>, and
  the transcript has grown by the assistant message only.
\<close>

theorem tool_iteration_aborts_counterexample:
  "chat_completions_create demo_services (messages (demo_agent 1 [demo_call_deep]))
     (world (demo_agent 1 [demo_call_deep]))
   = (Inr demo_call_deep, \<lparr>script = [], trace = []\<rparr>)
   \<and> length (requests demo_call_deep) = 1
   \<and> messages (demo_agent 1 [demo_call_deep]) = []
   \<and> iteration_body demo_services (demo_agent 1 [demo_call_deep]) =
       (Some (Raised (RecursionError
          ''maximum recursion depth exceeded while decoding a JSON array from a unicode string'')),
        \<lparr>agent_config = demo_config, max_iterations = 1,
         messages = [AssistantMessage demo_call_deep],
         world = \<lparr>script = [], trace = []\<rparr>, model_calls = 1\<rparr>)"
proof -
  let ?a = "demo_agent 1 [demo_call_deep]"
  let ?tc = "\<lparr>tc_id = ''call_9'', tc_name = ''list_repo_files'', tc_arguments = deep_text\<rparr>"
  let ?re = "RecursionError
       ''maximum recursion depth exceeded while decoding a JSON array from a unicode string''"
  have reply: "chat_completions_create demo_services (messages ?a) (world ?a)
                 = (Inr demo_call_deep, \<lparr>script = [], trace = []\<rparr>)"
    by (simp add: demo_services_def demo_model_def demo_agent_def)
  have reqs: "requests demo_call_deep = [?tc]"
    by (simp add: requests_def demo_call_deep_def)
  have one: "call_tool demo_services ?tc b = (Some ?re, b)" for b :: "demo_world agent"
    by (simp add: call_tool_def load_arguments_def demo_services_def demo_json_loads_deep)
  have tools: "call_tools demo_services (requests demo_call_deep)
          (?a\<lparr>world := \<lparr>script = [], trace = []\<rparr>, model_calls := Suc (model_calls ?a),
              messages := messages ?a @ [AssistantMessage demo_call_deep]\<rparr>)
        = (Some ?re, ?a\<lparr>world := \<lparr>script = [], trace = []\<rparr>, model_calls := Suc (model_calls ?a),
              messages := messages ?a @ [AssistantMessage demo_call_deep]\<rparr>)"
    by (simp add: reqs one)
  have some: "requests demo_call_deep \<noteq> []"
    by (simp add: reqs)
  have "iteration_body demo_services ?a =
       (Some (Raised ?re),
        ?a\<lparr>world := \<lparr>script = [], trace = []\<rparr>, model_calls := Suc (model_calls ?a),
              messages := messages ?a @ [AssistantMessage demo_call_deep]\<rparr>)"
    using iteration_body_requests [OF reply some tools] by simp
  then show ?thesis
    using reply by (simp add: reqs demo_agent_def)
qed

text \<open>
  Claim C3, amended. An iteration with tool calls: when the model's reply carries
  \<open>N \<ge> 1\<close> requests, the transcript the iteration leaves extends the old transcript
  followed by the assistant message, so no earlier entry is removed, changed or moved;
  and when \<^verbatim>\<open>json.loads\<close> raises no exception other than \<^verbatim>\<open>JSONDecodeError\<close> on the
  argument text of any of the requests, the iteration goes on to the next one with a
  transcript that is the old transcript followed by the assistant message and \<open>N\<close> tool
  messages, so it has grown by exactly \<open>1 + N\<close>, and the \<open>i\<close>-th tool message carries
  the id of the \<open>i\<close>-th request.
\<close>

theorem tool_iteration_grows_transcript:
  "chat_completions_create S (messages a) (world a) = (Inr message, w') \<Longrightarrow>
   requests message \<noteq> [] \<Longrightarrow>
     prefix (messages a @ [AssistantMessage message]) (messages (snd (iteration_body S a)))
     \<and> ((\<forall>tc\<in>set (requests message).
            \<forall>e. json_loads S (tc_arguments tc) = Inl e \<longrightarrow> is_JSONDecodeError e) \<longrightarrow>
         (\<exists>a' tool_messages.
            iteration_body S a = (None, a')
            \<and> messages a' = messages a @ AssistantMessage message # tool_messages
            \<and> length tool_messages = length (requests message)
            \<and> length (messages a') = length (messages a) + 1 + length (requests message)
            \<and> (\<forall>i<length (requests message).
                  \<exists>result. tool_messages ! i = ToolDict (tc_id (requests message ! i)) result)))"
proof -
  assume reply: "chat_completions_create S (messages a) (world a) = (Inr message, w')"
    and some: "requests message \<noteq> []"
  let ?a2 = "a\<lparr>world := w', model_calls := Suc (model_calls a),
                messages := messages a @ [AssistantMessage message]\<rparr>"
  obtain r a3 where tools: "call_tools S (requests message) ?a2 = (r, a3)"
    by (cases "call_tools S (requests message) ?a2")
  have "snd (iteration_body S a) = a3"
    using iteration_body_requests [OF reply some tools] by simp
  moreover have "prefix (messages ?a2) (messages a3)"
    using call_tools_frame [OF tools] by simp
  ultimately have kept:
    "prefix (messages a @ [AssistantMessage message]) (messages (snd (iteration_body S a)))"
    by simp
  have grown: "\<exists>a' tool_messages.
            iteration_body S a = (None, a')
            \<and> messages a' = messages a @ AssistantMessage message # tool_messages
            \<and> length tool_messages = length (requests message)
            \<and> length (messages a') = length (messages a) + 1 + length (requests message)
            \<and> (\<forall>i<length (requests message).
                  \<exists>result. tool_messages ! i = ToolDict (tc_id (requests message ! i)) result)"
    if loads: "\<forall>tc\<in>set (requests message).
                 \<forall>e. json_loads S (tc_arguments tc) = Inl e \<longrightarrow> is_JSONDecodeError e"
  proof -
    from iteration_body_tool_round [OF reply some loads]
    obtain results a' where r: "iteration_body S a = (None, a')"
        "length results = length (requests message)"
        "messages a' = messages a @ AssistantMessage message # tool_dicts (requests message) results"
      by blast
    let ?tms = "tool_dicts (requests message) results"
    have len: "length ?tms = length (requests message)"
      using r(2) by (rule length_tool_dicts)
    have ids: "\<forall>i<length (requests message).
        \<exists>result. ?tms ! i = ToolDict (tc_id (requests message ! i)) result"
      using r(2) by (simp add: tool_dicts_nth)
    show ?thesis
      using r(1,3) len ids by (intro exI [of _ a'] exI [of _ ?tms]) simp
  qed
  show ?thesis
    using kept grown by blast
qed

theorem tool_iteration_grows_transcript_witness:
  "chat_completions_create demo_services (messages (demo_agent 1 [demo_call_two]))
     (world (demo_agent 1 [demo_call_two]))
   = (Inr demo_call_two, \<lparr>script = [], trace = []\<rparr>)
   \<and> requests demo_call_two =
       [\<lparr>tc_id = ''call_1'', tc_name = ''foo'', tc_arguments = ''{}''\<rparr>,
        \<lparr>tc_id = ''call_2'', tc_name = ''list_repo_files'', tc_arguments = ''{path: ''\<rparr>]
   \<and> json_loads demo_services ''{}'' = Inr (JObj [])
   \<and> json_loads demo_services ''{path: '' =
       Inl (JSONDecodeError
         ''Expecting property name enclosed in double quotes: line 1 column 2 (char 1)'')
   \<and> is_JSONDecodeError (JSONDecodeError
         ''Expecting property name enclosed in double quotes: line 1 column 2 (char 1)'')
   \<and> (\<exists>a'. iteration_body demo_services (demo_agent 1 [demo_call_two]) = (None, a')
       \<and> length (messages a') = 3
       \<and> (\<exists>result. messages a' ! 1 = ToolDict ''call_1'' result)
       \<and> (\<exists>result. messages a' ! 2 = ToolDict ''call_2'' result))"
proof -
  let ?m = demo_call_two
  let ?a = "demo_agent 1 [?m]"
  have reply: "chat_completions_create demo_services (messages ?a) (world ?a)
                 = (Inr ?m, \<lparr>script = [], trace = []\<rparr>)"
    by (simp add: demo_services_def demo_model_def demo_agent_def)
  have reqs: "requests ?m =
      [\<lparr>tc_id = ''call_1'', tc_name = ''foo'', tc_arguments = ''{}''\<rparr>,
       \<lparr>tc_id = ''call_2'', tc_name = ''list_repo_files'', tc_arguments = ''{path: ''\<rparr>]"
    by (simp add: requests_def demo_call_two_def)
  have some: "requests ?m \<noteq> []"
    by (simp add: reqs)
  have loads: "\<forall>tc\<in>set (requests ?m).
         \<forall>e. json_loads demo_services (tc_arguments tc) = Inl e \<longrightarrow> is_JSONDecodeError e"
    by (simp add: reqs demo_services_def demo_json_loads_empty demo_json_loads_bad)
  have len: "length (requests ?m) = 2" and nil: "messages ?a = []"
    and ids: "tc_id (requests ?m ! 0) = ''call_1''" "tc_id (requests ?m ! 1) = ''call_2''"
    by (simp_all add: reqs demo_agent_def)
  from tool_iteration_grows_transcript [OF reply some] loads
  obtain a' tms where r: "iteration_body demo_services ?a = (None, a')"
      "messages a' = messages ?a @ AssistantMessage ?m # tms"
      "length tms = length (requests ?m)"
      "\<forall>i<length (requests ?m). \<exists>result. tms ! i = ToolDict (tc_id (requests ?m ! i)) result"
    by blast
  from r(4) len ids obtain r1 r2 where "tms ! 0 = ToolDict ''call_1'' r1"
    and "tms ! 1 = ToolDict ''call_2'' r2"
    by (metis One_nat_def lessI numeral_2_eq_2 zero_less_Suc)
  with r(1,2,3) len nil have "iteration_body demo_services ?a = (None, a')
       \<and> length (messages a') = 3
       \<and> (\<exists>result. messages a' ! 1 = ToolDict ''call_1'' result)
       \<and> (\<exists>result. messages a' ! 2 = ToolDict ''call_2'' result)"
    by simp
  moreover have "json_loads demo_services ''{}'' = Inr (JObj [])"
    and "json_loads demo_services ''{path: '' =
       Inl (JSONDecodeError
         ''Expecting property name enclosed in double quotes: line 1 column 2 (char 1)'')"
    by (simp_all add: demo_services_def demo_json_loads_empty demo_json_loads_bad)
  ultimately show ?thesis
    using reply reqs by simp
qed

lemma run_completes:
  assumes ok: "config_ok (agent_config a)"
    and k: "1 \<le> k" "k \<le> max_iterations a"
    and before: "after_iterations S (seeded S a) (nat (k - 1)) = Some a'"
    and reply: "chat_completions_create S (messages a') (world a') = (Inr message, w')"
    and none: "requests message = []"
  shows "run S a =
     (Completed (final_message_of message),
      a'\<lparr>world := w', model_calls := model_calls a + nat k,
         messages := messages a' @ [AssistantDict (final_message_of message)]\<rparr>)"
proof -
  let ?its = "[1..max_iterations a]"
  have len: "nat (k - 1) < length ?its"
    using k by simp
  have calls: "model_calls a' = model_calls a + nat (k - 1)"
    using after_iterations_frame [OF before] by (simp add: seeded_frame)
  have "run S a = run_loop S ?its (seeded S a)"
    using ok by (rule run_seeded)
  also have "\<dots> = run_loop S (drop (nat (k - 1)) ?its) a'"
  proof (rule after_iterations_run_loop [OF before])
    show "nat (k - 1) \<le> length ?its"
      using k by simp
  qed
  also have "drop (nat (k - 1)) ?its = ?its ! nat (k - 1) # drop (Suc (nat (k - 1))) ?its"
    by (rule Cons_nth_drop_Suc [OF len, symmetric])
  also have "run_loop S (?its ! nat (k - 1) # drop (Suc (nat (k - 1))) ?its) a' =
     (Completed (final_message_of message),
      a'\<lparr>world := w', model_calls := Suc (model_calls a'),
         messages := messages a' @ [AssistantDict (final_message_of message)]\<rparr>)"
    by (simp add: iteration_body_def reply none Let_def)
  also have "Suc (model_calls a') = model_calls a + nat k"
    using calls k by simp
  finally show ?thesis .
qed

subsection \<open>Concrete runs\<close>

lemma config_ok_demo: "config_ok (agent_config (demo_agent b replies))"
  by (simp add: config_ok_def demo_agent_def demo_config_def)

lemma demo_foo_round:
  "iteration_body demo_services
     \<lparr>agent_config = c, max_iterations = b, messages = ms,
      world = \<lparr>script = demo_call_foo # rest, trace = tr\<rparr>, model_calls = n\<rparr> =
   (None,
     \<lparr>agent_config = c, max_iterations = b,
      messages = ms @ [AssistantMessage demo_call_foo,
                       ToolDict ''call_1'' ''{\"error\": \"Unknown tool: foo\"}''],
      world = \<lparr>script = rest, trace = tr\<rparr>, model_calls = Suc n\<rparr>)"
proof -
  have u: "\<not> registered ''foo''"
    by (simp add: registered_def TOOL_SCHEMAS_def)
  have e: "escaped ''Unknown tool: foo'' = ''Unknown tool: foo''"
    by (simp add: escaped_def escape_char_def)
  have d: "dispatch demo_tools ''foo'' (JObj []) c w = (Inr ''{\"error\": \"Unknown tool: foo\"}'', w)"
    for c and w :: demo_world
  proof -
    have "map_of (handlers demo_tools c) ''foo'' = None"
      using u by (simp add: handlers_registered)
    then show ?thesis
      by (simp add: dispatch_def error_payload_eq e)
  qed
  show ?thesis
    by (simp add: iteration_body_def demo_services_def demo_model_def demo_call_foo_def
          requests_def call_tool_def load_arguments_def demo_json_loads_empty d)
qed

lemma demo_text_reply:
  "chat_completions_create demo_services ms \<lparr>script = demo_text t # rest, trace = tr\<rparr>
     = (Inr (demo_text t), \<lparr>script = rest, trace = tr\<rparr>)"
  by (simp add: demo_services_def demo_model_def)

lemma seeded_demo:
  "seeded demo_services (demo_agent b replies) =
     \<lparr>agent_config = demo_config, max_iterations = b,
      messages = [SystemDict ''You are an AI debugging agent.'',
                  UserDict (get_user_prompt ''checkout'' ''shop'')],
      world = \<lparr>script = replies, trace = []\<rparr>, model_calls = 0\<rparr>"
  by (simp add: seeded_def demo_agent_def demo_services_def demo_config_def)

text \<open>
  Claim C1, as stated, fails: a final message whose content is the empty string ends the
  run, but the run returns, and appends, the fixed text and not that content.
\<close>

theorem terminal_content_counterexample:
  "requests (demo_text []) = []
   \<and> msg_content (demo_text []) = Some []
   \<and> fst (run demo_services (demo_agent 1 [demo_text []])) =
        Completed ''Agent finished without a summary.''
   \<and> fst (run demo_services (demo_agent 1 [demo_text []])) \<noteq> Completed []
   \<and> last (messages (snd (run demo_services (demo_agent 1 [demo_text []]))))
        = AssistantDict ''Agent finished without a summary.''"
proof -
  let ?a = "demo_agent 1 [demo_text []]"
  have ok: "config_ok (agent_config ?a)"
    by (rule config_ok_demo)
  have k: "(1::int) \<le> 1" "1 \<le> max_iterations ?a"
    by (simp_all add: demo_agent_def)
  have before: "after_iterations demo_services (seeded demo_services ?a) (nat (1 - 1))
                  = Some (seeded demo_services ?a)"
    by simp
  have reply: "chat_completions_create demo_services (messages (seeded demo_services ?a))
                  (world (seeded demo_services ?a))
                 = (Inr (demo_text []), \<lparr>script = [], trace = []\<rparr>)"
    by (simp add: seeded_demo demo_text_reply)
  have none: "requests (demo_text []) = []"
    by (simp add: requests_def demo_text_def)
  have fin: "final_message_of (demo_text []) = ''Agent finished without a summary.''"
    by (simp add: final_message_of_def demo_text_def)
  have c: "msg_content (demo_text []) = Some []"
    by (simp add: demo_text_def)
  show ?thesis
    using none c run_completes [OF ok k before reply none]
    by (simp add: fin seeded_demo)
qed

text \<open>
  Claim C1, amended. For a bound \<open>B \<ge> 1\<close> and an iteration \<open>k \<le> B\<close> reached after
  \<open>k - 1\<close> iterations with tool calls: if the reply of iteration \<open>k\<close> has no tool-call
  requests and its content is a non-empty text, the run ends there through the return
  inside the loop with exactly that text, an assistant entry with that text is appended
  to the transcript, and the model has been called \<open>k\<close> times in all, so no call is made
  for iteration \<open>k + 1\<close>.
\<close>

theorem terminal_message_completes_run:
  "config_ok (agent_config a) \<Longrightarrow> 1 \<le> k \<Longrightarrow> k \<le> max_iterations a \<Longrightarrow>
   after_iterations S (seeded S a) (nat (k - 1)) = Some a' \<Longrightarrow>
   chat_completions_create S (messages a') (world a') = (Inr message, w') \<Longrightarrow>
   requests message = [] \<Longrightarrow> msg_content message = Some text \<Longrightarrow> text \<noteq> [] \<Longrightarrow>
     run S a =
       (Completed text,
        a'\<lparr>world := w', model_calls := model_calls a + nat k,
           messages := messages a' @ [AssistantDict text]\<rparr>)"
proof -
  assume "msg_content message = Some text" "text \<noteq> []"
  then have "final_message_of message = text"
    by (simp add: final_message_of_def)
  moreover assume "config_ok (agent_config a)" "1 \<le> k" "k \<le> max_iterations a"
    "after_iterations S (seeded S a) (nat (k - 1)) = Some a'"
    "chat_completions_create S (messages a') (world a') = (Inr message, w')"
    "requests message = []"
  ultimately show ?thesis
    using run_completes [of a k S a' message w'] by simp
qed

theorem terminal_message_completes_run_witness:
  "config_ok (agent_config (demo_agent 2 [demo_call_foo, demo_text ''Fixed.'']))
   \<and> (1::int) \<le> 2 \<and> 2 \<le> max_iterations (demo_agent 2 [demo_call_foo, demo_text ''Fixed.''])
   \<and> requests (demo_text ''Fixed.'') = []
   \<and> msg_content (demo_text ''Fixed.'') = Some ''Fixed.''
   \<and> fst (run demo_services (demo_agent 2 [demo_call_foo, demo_text ''Fixed.''])) = Completed ''Fixed.''
   \<and> model_calls (snd (run demo_services (demo_agent 2 [demo_call_foo, demo_text ''Fixed.'']))) = 2
   \<and> messages (snd (run demo_services (demo_agent 2 [demo_call_foo, demo_text ''Fixed.'']))) =
       [SystemDict ''You are an AI debugging agent.'',
        UserDict (get_user_prompt ''checkout'' ''shop''),
        AssistantMessage demo_call_foo,
        ToolDict ''call_1'' ''{\"error\": \"Unknown tool: foo\"}'',
        AssistantDict ''Fixed.'']"
proof -
  let ?a = "demo_agent 2 [demo_call_foo, demo_text ''Fixed.'']"
  let ?a1 = "\<lparr>agent_config = demo_config, max_iterations = 2,
      messages = [SystemDict ''You are an AI debugging agent.'',
                  UserDict (get_user_prompt ''checkout'' ''shop''),
                  AssistantMessage demo_call_foo,
                  ToolDict ''call_1'' ''{\"error\": \"Unknown tool: foo\"}''],
      world = \<lparr>script = [demo_text ''Fixed.''], trace = []\<rparr>, model_calls = Suc 0\<rparr>"
  have ok: "config_ok (agent_config ?a)"
    by (rule config_ok_demo)
  have k: "(1::int) \<le> 2" "2 \<le> max_iterations ?a"
    by (simp_all add: demo_agent_def)
  have before: "after_iterations demo_services (seeded demo_services ?a) (nat (2 - 1)) = Some ?a1"
    by (simp add: seeded_demo demo_foo_round)
  have reply: "chat_completions_create demo_services (messages ?a1) (world ?a1)
                 = (Inr (demo_text ''Fixed.''), \<lparr>script = [], trace = []\<rparr>)"
    by (simp add: demo_text_reply)
  have none: "requests (demo_text ''Fixed.'') = []"
    by (simp add: requests_def demo_text_def)
  have txt1: "msg_content (demo_text ''Fixed.'') = Some ''Fixed.''" "''Fixed.'' \<noteq> []"
    by (simp_all add: demo_text_def)
  show ?thesis
    using ok k none txt1(1)
      terminal_message_completes_run [OF ok k before reply none txt1]
    by (simp add: demo_agent_def)
qed

subsection \<open>The iteration budget\<close>

lemma run_model_calls:
  "model_calls (snd (run S a)) \<le> model_calls a + nat (max_iterations a)"
proof (cases "config_ok (agent_config a)")
  case True
  have "model_calls (snd (run_loop S [1..max_iterations a] (seeded S a)))
          \<le> model_calls (seeded S a) + length [1..max_iterations a]"
    by (rule run_loop_model_calls)
  then show ?thesis
    using True by (simp add: run_seeded seeded_frame)
next
  case False
  then show ?thesis
    by (auto simp: run_def config_ok_def split: option.splits)
qed

lemma run_exhausted:
  assumes ok: "config_ok (agent_config a)"
    and all: "after_iterations S (seeded S a) (nat (max_iterations a)) = Some a'"
  shows "run S a = (Exhausted ''Agent reached maximum iterations without completing the task.'', a')"
proof -
  have "run S a = run_loop S [1..max_iterations a] (seeded S a)"
    using ok by (rule run_seeded)
  also have "\<dots> = run_loop S (drop (nat (max_iterations a)) [1..max_iterations a]) a'"
    by (rule after_iterations_run_loop [OF all]) simp
  also have "drop (nat (max_iterations a)) [1..max_iterations a] = []"
    by simp
  finally show ?thesis
    by simp
qed

text \<open>
  Claim C2. The budget: a run makes at most \<open>B\<close> model calls, \<open>B\<close> being the bound (none
  when the bound is zero or less). With a bound of zero the model is not called, the
  world is untouched and the run returns the fixed budget-exhausted text at once. When
  all \<open>B\<close> iterations run to their end without a final message, the run returns the
  budget-exhausted text after exactly \<open>B\<close> calls, and the transcript it leaves extends
  the transcript as it stood after each iteration, so every tool result appended on the
  way is still there.
\<close>

theorem run_bounded_model_calls:
  "model_calls (snd (run S a)) \<le> model_calls a + nat (max_iterations a)
   \<and> (config_ok (agent_config a) \<and> max_iterations a \<le> 0 \<longrightarrow>
        run S a = (Exhausted ''Agent reached maximum iterations without completing the task.'',
                   seeded S a)
        \<and> model_calls (seeded S a) = model_calls a \<and> world (seeded S a) = world a)
   \<and> (\<forall>a'. config_ok (agent_config a)
          \<and> after_iterations S (seeded S a) (nat (max_iterations a)) = Some a' \<longrightarrow>
        run S a = (Exhausted ''Agent reached maximum iterations without completing the task.'', a')
        \<and> model_calls a' = model_calls a + nat (max_iterations a)
        \<and> (\<forall>k\<le>nat (max_iterations a).
              \<exists>b. after_iterations S (seeded S a) k = Some b
                  \<and> prefix (messages b) (messages a')))"
proof -
  have zero: "run S a = (Exhausted ''Agent reached maximum iterations without completing the task.'',
                   seeded S a)
        \<and> model_calls (seeded S a) = model_calls a \<and> world (seeded S a) = world a"
    if "config_ok (agent_config a)" "max_iterations a \<le> 0"
    using that run_exhausted [of a S "seeded S a"] by (simp add: seeded_frame)
  have full: "run S a = (Exhausted ''Agent reached maximum iterations without completing the task.'', a')
        \<and> model_calls a' = model_calls a + nat (max_iterations a)
        \<and> (\<forall>k\<le>nat (max_iterations a).
              \<exists>b. after_iterations S (seeded S a) k = Some b
                  \<and> prefix (messages b) (messages a'))"
    if ok: "config_ok (agent_config a)"
      and all: "after_iterations S (seeded S a) (nat (max_iterations a)) = Some a'" for a'
  proof -
    have "model_calls a' = model_calls (seeded S a) + nat (max_iterations a)"
      using after_iterations_frame [OF all] by simp
    then have "model_calls a' = model_calls a + nat (max_iterations a)"
      by (simp add: seeded_frame)
    then show ?thesis
      using run_exhausted [OF ok all] after_iterations_earlier [OF all] by simp
  qed
  show ?thesis
    using run_model_calls [of S a] zero full by blast
qed

theorem run_bounded_model_calls_witness:
  "config_ok (agent_config (demo_agent 1 [demo_call_foo]))
   \<and> run demo_services (demo_agent 1 [demo_call_foo]) =
       (Exhausted ''Agent reached maximum iterations without completing the task.'',
        \<lparr>agent_config = demo_config, max_iterations = 1,
         messages = [SystemDict ''You are an AI debugging agent.'',
                     UserDict (get_user_prompt ''checkout'' ''shop''),
                     AssistantMessage demo_call_foo,
                     ToolDict ''call_1'' ''{\"error\": \"Unknown tool: foo\"}''],
         world = \<lparr>script = [], trace = []\<rparr>, model_calls = 1\<rparr>)
   \<and> config_ok (agent_config (demo_agent 0 [demo_call_foo]))
   \<and> max_iterations (demo_agent 0 [demo_call_foo]) \<le> 0
   \<and> fst (run demo_services (demo_agent 0 [demo_call_foo])) =
        Exhausted ''Agent reached maximum iterations without completing the task.''
   \<and> model_calls (snd (run demo_services (demo_agent 0 [demo_call_foo]))) = 0
   \<and> world (snd (run demo_services (demo_agent 0 [demo_call_foo]))) =
        \<lparr>script = [demo_call_foo], trace = []\<rparr>"
proof -
  let ?a = "demo_agent 1 [demo_call_foo]"
  let ?a1 = "\<lparr>agent_config = demo_config, max_iterations = 1,
         messages = [SystemDict ''You are an AI debugging agent.'',
                     UserDict (get_user_prompt ''checkout'' ''shop''),
                     AssistantMessage demo_call_foo,
                     ToolDict ''call_1'' ''{\"error\": \"Unknown tool: foo\"}''],
         world = \<lparr>script = [], trace = []\<rparr>, model_calls = 1\<rparr>"
  let ?z = "demo_agent 0 [demo_call_foo]"
  have ok: "config_ok (agent_config ?a)" and okz: "config_ok (agent_config ?z)"
    by (rule config_ok_demo)+
  have b1: "max_iterations ?a = 1" and b0: "max_iterations ?z \<le> 0"
    by (simp_all add: demo_agent_def)
  have all: "after_iterations demo_services (seeded demo_services ?a) (nat (max_iterations ?a)) = Some ?a1"
    by (simp add: b1 seeded_demo demo_foo_round)
  have one: "run demo_services ?a =
       (Exhausted ''Agent reached maximum iterations without completing the task.'', ?a1)"
    using run_bounded_model_calls [of demo_services ?a] ok all by blast
  have zero: "run demo_services ?z =
       (Exhausted ''Agent reached maximum iterations without completing the task.'',
        seeded demo_services ?z)"
    using run_bounded_model_calls [of demo_services ?z] okz b0 by blast
  show ?thesis
    using ok okz b0 one zero by (simp add: seeded_demo)
qed

subsection \<open>The text a run returns\<close>

lemma final_message_of_nonempty: "final_message_of message \<noteq> []"
  by (simp add: final_message_of_def split: option.splits)

lemma iteration_body_text:
  assumes "iteration_body S a = (Some out, a')"
  shows "out \<noteq> Exhausted t \<and> out \<noteq> Completed []"
proof (cases "chat_completions_create S (messages a) (world a)")
  case (Pair r w')
  show ?thesis
  proof (cases r)
    case (Inl e)
    with Pair assms show ?thesis
      by (auto simp: iteration_body_def)
  next
    case (Inr message)
    with Pair assms show ?thesis
      by (auto simp: iteration_body_def Let_def final_message_of_nonempty
            split: if_splits prod.splits option.splits)
  qed
qed

lemma run_loop_text:
  "fst (run_loop S its a) = Completed t \<or> fst (run_loop S its a) = Exhausted t \<Longrightarrow> t \<noteq> []"
proof (induction its arbitrary: a)
  case Nil
  then show ?case by auto
next
  case (Cons i its)
  show ?case
  proof (cases "iteration_body S a")
    case (Pair out a')
    show ?thesis
    proof (cases out)
      case None
      with Pair Cons.prems have
        "fst (run_loop S its a') = Completed t \<or> fst (run_loop S its a') = Exhausted t"
        by simp
      then show ?thesis by (rule Cons.IH)
    next
      case (Some res)
      with Pair iteration_body_text [of S a res a'] Cons.prems show ?thesis
        by auto
    qed
  qed
qed

lemma run_text:
  "fst (run S a) = Completed t \<or> fst (run S a) = Exhausted t \<Longrightarrow> t \<noteq> []"
proof (cases "config_ok (agent_config a)")
  case True
  assume "fst (run S a) = Completed t \<or> fst (run S a) = Exhausted t"
  with True show ?thesis
    using run_loop_text [of S "[1..max_iterations a]" "seeded S a" t] by (simp add: run_seeded)
next
  case False
  assume "fst (run S a) = Completed t \<or> fst (run S a) = Exhausted t"
  with False show ?thesis
    by (auto simp: run_def config_ok_def split: option.splits)
qed

text \<open>
  Claim C9. Empty final content: when the final message (no tool-call requests) has no
  content or the empty string as content, the run appends and returns the fixed text
  \<^verbatim>\<open>Agent finished without a summary.\<close> in its place; and whatever text a run returns,
  from inside the loop or after it, is not the empty string.
\<close>

theorem empty_content_fallback:
  "(config_ok (agent_config a) \<and> 1 \<le> k \<and> k \<le> max_iterations a
      \<and> after_iterations S (seeded S a) (nat (k - 1)) = Some a'
      \<and> chat_completions_create S (messages a') (world a') = (Inr message, w')
      \<and> requests message = []
      \<and> (msg_content message = None \<or> msg_content message = Some []) \<longrightarrow>
    run S a =
      (Completed ''Agent finished without a summary.'',
       a'\<lparr>world := w', model_calls := model_calls a + nat k,
          messages := messages a' @ [AssistantDict ''Agent finished without a summary.'']\<rparr>))
   \<and> (\<forall>t. fst (run S a) = Completed t \<or> fst (run S a) = Exhausted t \<longrightarrow> t \<noteq> [])"
proof -
  have "final_message_of message = ''Agent finished without a summary.''"
    if "msg_content message = None \<or> msg_content message = Some []"
    using that by (auto simp: final_message_of_def)
  then show ?thesis
    using run_completes [of a k S a' message w'] run_text [of S a] by auto
qed

theorem empty_content_fallback_witness:
  "config_ok (agent_config (demo_agent 3 [\<lparr>msg_content = None, msg_tool_calls = Some []\<rparr>]))
   \<and> requests \<lparr>msg_content = None, msg_tool_calls = Some []\<rparr> = []
   \<and> run demo_services (demo_agent 3 [\<lparr>msg_content = None, msg_tool_calls = Some []\<rparr>]) =
       (Completed ''Agent finished without a summary.'',
        \<lparr>agent_config = demo_config, max_iterations = 3,
         messages = [SystemDict ''You are an AI debugging agent.'',
                     UserDict (get_user_prompt ''checkout'' ''shop''),
                     AssistantDict ''Agent finished without a summary.''],
         world = \<lparr>script = [], trace = []\<rparr>, model_calls = 1\<rparr>)
   \<and> ''Agent finished without a summary.'' \<noteq> []"
proof -
  let ?m = "\<lparr>msg_content = None, msg_tool_calls = Some []\<rparr>"
  let ?a = "demo_agent 3 [?m]"
  have ok: "config_ok (agent_config ?a)"
    by (rule config_ok_demo)
  have k: "(1::int) \<le> 1" "1 \<le> max_iterations ?a"
    by (simp_all add: demo_agent_def)
  have before: "after_iterations demo_services (seeded demo_services ?a) (nat (1 - 1))
                  = Some (seeded demo_services ?a)"
    by simp
  have reply: "chat_completions_create demo_services (messages (seeded demo_services ?a))
                  (world (seeded demo_services ?a)) = (Inr ?m, \<lparr>script = [], trace = []\<rparr>)"
    unfolding seeded_demo by (simp add: demo_services_def demo_model_def)
  have none: "requests ?m = []"
    by (simp add: requests_def)
  have c: "msg_content ?m = None \<or> msg_content ?m = Some []"
    by simp
  have "run demo_services ?a =
      (Completed ''Agent finished without a summary.'',
       (seeded demo_services ?a)\<lparr>world := \<lparr>script = [], trace = []\<rparr>,
          model_calls := model_calls ?a + nat 1,
          messages := messages (seeded demo_services ?a)
                      @ [AssistantDict ''Agent finished without a summary.'']\<rparr>)"
    using empty_content_fallback [of ?a 1 demo_services "seeded demo_services ?a" ?m
        "\<lparr>script = [], trace = []\<rparr>"] ok k before reply none c
    by blast
  then show ?thesis
    using ok none unfolding seeded_demo by (simp add: demo_agent_def)
qed

section \<open>Properties of the tool functions\<close>

text \<open>
  Claim C7, as stated, fails: with a token the service rejects, opening the repository
  raises, and \<^verbatim>\<open>commit_file_change\<close> raises that exception to its caller instead of
  returning an error payload.
\<close>

theorem commit_file_change_raises_counterexample:
  "commit_file_change demo_github (demo_config(''GITHUB_TOKEN'' \<mapsto> ''expired''))
     ''main.py'' ''x = 2'' ''Fix the bug'' ''fix'' demo_repo_state
   = (Inl (GithubException ''401 {\"message\": \"Bad credentials\"}''), demo_repo_state)"
  by (simp add: commit_file_change_def get_repo_def demo_config_def demo_github_def)

lemma commit_payload_eq:
  "commit_payload action commit_sha =
     ''{\"success\": true, \"action\": \"'' @ escaped action @ ''\", \"commit_sha\": \"''
     @ escaped commit_sha @ ''\"}''"
proof -
  have "escaped ''success'' = ''success''" "escaped ''action'' = ''action''"
    "escaped ''commit_sha'' = ''commit_sha''"
    by (simp_all add: escaped_def escape_char_def)
  then show ?thesis
    by (simp add: commit_payload_def encode_string_def)
qed

lemma updated_not_created: "commit_payload ''updated'' s \<noteq> commit_payload ''created'' s'"
proof -
  have "escaped ''updated'' = ''updated''" "escaped ''created'' = ''created''"
    by (simp_all add: escaped_def escape_char_def)
  then show ?thesis
    by (simp add: commit_payload_eq)
qed

lemma updated_not_error: "commit_payload ''updated'' s \<noteq> json_dumps (JObj [(''error'', JStr m)])"
proof -
  have "escaped ''error'' = ''error''"
    by (simp add: escaped_def escape_char_def)
  then show ?thesis
    by (simp add: commit_payload_eq encode_string_def)
qed

lemma try_create_created:
  "repo_create_file G repo path message content branch w = (Inr commit_sha, w1) \<Longrightarrow>
     try_create G repo path content message branch w = (Inr (commit_payload ''created'' commit_sha), w1)"
  by (simp add: try_create_def commit_payload_def)

lemma try_create_failed:
  "repo_create_file G repo path message content branch w = (Inl e, w1) \<Longrightarrow>
     try_create G repo path content message branch w =
       (if is_GithubException e then (Inr (json_dumps (JObj [(''error'', JStr (str_exn e))])), w1)
        else (Inl e, w1))"
  by (simp add: try_create_def)

lemma try_create_not_updated:
  "fst (try_create G repo path content message branch w) \<noteq> Inr (commit_payload ''updated'' s)"
proof (cases "repo_create_file G repo path message content branch w")
  case (Pair r w1)
  show ?thesis
  proof (cases r)
    case (Inl e)
    with Pair have "repo_create_file G repo path message content branch w = (Inl e, w1)"
      by simp
    from try_create_failed [OF this] updated_not_error [of s "str_exn e"] show ?thesis
      by auto
  next
    case (Inr commit_sha)
    with Pair have "repo_create_file G repo path message content branch w = (Inr commit_sha, w1)"
      by simp
    from try_create_created [OF this] updated_not_created [of s commit_sha] show ?thesis
      by auto
  qed
qed

lemma updated_only_after_update:
  assumes "fst (commit_file_change G config path content message branch w)
             = Inr (commit_payload ''updated'' s)"
  shows "\<exists>repo w0 existing w1 commit_sha w2.
           get_repo G config w = (Inr repo, w0)
           \<and> repo_get_contents G repo path branch w0 = (Inr (ContentFile existing), w1)
           \<and> repo_update_file G repo path message content (cf_sha existing) branch w1
               = (Inr commit_sha, w2)"
proof (cases "get_repo G config w")
  case (Pair r w0)
  show ?thesis
  proof (cases r)
    case (Inl e)
    with Pair assms show ?thesis
      by (simp add: commit_file_change_def)
  next
    case (Inr repo)
    show ?thesis
    proof (cases "try_update G repo path content message branch w0")
      case upd: (Pair u w1)
      show ?thesis
      proof (cases u)
        case (Inl e)
        with Pair Inr upd assms try_create_not_updated [of G repo path content message branch w1 s]
        show ?thesis
          by (simp add: commit_file_change_def split: if_splits)
      next
        case res: (Inr result)
        with upd have "\<exists>existing w' commit_sha.
            repo_get_contents G repo path branch w0 = (Inr (ContentFile existing), w')
            \<and> repo_update_file G repo path message content (cf_sha existing) branch w'
               = (Inr commit_sha, w1)"
          by (auto simp: try_update_def split: prod.splits sum.splits contents.splits)
        with Pair Inr show ?thesis
          by blast
      qed
    qed
  qed
qed

text \<open>
  Claim C7, amended. \<^verbatim>\<open>commit_file_change\<close> reads the path on the branch to tell an
  existing file from a new one. When the read yields a file and the update goes through,
  it returns the payload with action \<^verbatim>\<open>updated\<close>, and it returns that payload in no
  other case; when the read raises \<^verbatim>\<open>GithubException\<close> (no such file), it creates the
  file and returns the payload with action \<^verbatim>\<open>created\<close>, or, when the create raises
  \<^verbatim>\<open>GithubException\<close>, the error payload with that failure. A failure to open the
  repository is raised to the caller.
\<close>

theorem commit_file_change_update_or_create:
  "(\<forall>e w0. get_repo G config w = (Inl e, w0) \<longrightarrow>
      commit_file_change G config path content message branch w = (Inl e, w0))
   \<and> (\<forall>repo w0 existing w1 commit_sha w2.
        get_repo G config w = (Inr repo, w0)
        \<and> repo_get_contents G repo path branch w0 = (Inr (ContentFile existing), w1)
        \<and> repo_update_file G repo path message content (cf_sha existing) branch w1
            = (Inr commit_sha, w2) \<longrightarrow>
      commit_file_change G config path content message branch w =
        (Inr (json_dumps (JObj [(''success'', JBool True), (''action'', JStr ''updated''),
                                (''commit_sha'', JStr commit_sha)])), w2))
   \<and> (\<forall>s. fst (commit_file_change G config path content message branch w) =
          Inr (json_dumps (JObj [(''success'', JBool True), (''action'', JStr ''updated''),
                                 (''commit_sha'', JStr s)])) \<longrightarrow>
        (\<exists>repo w0 existing w1 commit_sha w2.
           get_repo G config w = (Inr repo, w0)
           \<and> repo_get_contents G repo path branch w0 = (Inr (ContentFile existing), w1)
           \<and> repo_update_file G repo path message content (cf_sha existing) branch w1
               = (Inr commit_sha, w2)))
   \<and> (\<forall>repo w0 m w1 commit_sha w2.
        get_repo G config w = (Inr repo, w0)
        \<and> repo_get_contents G repo path branch w0 = (Inl (GithubException m), w1)
        \<and> repo_create_file G repo path message content branch w1 = (Inr commit_sha, w2) \<longrightarrow>
      commit_file_change G config path content message branch w =
        (Inr (json_dumps (JObj [(''success'', JBool True), (''action'', JStr ''created''),
                                (''commit_sha'', JStr commit_sha)])), w2))
   \<and> (\<forall>repo w0 m w1 m' w2.
        get_repo G config w = (Inr repo, w0)
        \<and> repo_get_contents G repo path branch w0 = (Inl (GithubException m), w1)
        \<and> repo_create_file G repo path message content branch w1 = (Inl (GithubException m'), w2) \<longrightarrow>
      commit_file_change G config path content message branch w =
        (Inr (json_dumps (JObj [(''error'', JStr m')])), w2))"
proof -
  have forward:
    "(\<forall>e w0. get_repo G config w = (Inl e, w0) \<longrightarrow>
      commit_file_change G config path content message branch w = (Inl e, w0))
   \<and> (\<forall>repo w0 existing w1 commit_sha w2.
        get_repo G config w = (Inr repo, w0)
        \<and> repo_get_contents G repo path branch w0 = (Inr (ContentFile existing), w1)
        \<and> repo_update_file G repo path message content (cf_sha existing) branch w1
            = (Inr commit_sha, w2) \<longrightarrow>
      commit_file_change G config path content message branch w =
        (Inr (json_dumps (JObj [(''success'', JBool True), (''action'', JStr ''updated''),
                                (''commit_sha'', JStr commit_sha)])), w2))
   \<and> (\<forall>repo w0 m w1 commit_sha w2.
        get_repo G config w = (Inr repo, w0)
        \<and> repo_get_contents G repo path branch w0 = (Inl (GithubException m), w1)
        \<and> repo_create_file G repo path message content branch w1 = (Inr commit_sha, w2) \<longrightarrow>
      commit_file_change G config path content message branch w =
        (Inr (json_dumps (JObj [(''success'', JBool True), (''action'', JStr ''created''),
                                (''commit_sha'', JStr commit_sha)])), w2))
   \<and> (\<forall>repo w0 m w1 m' w2.
        get_repo G config w = (Inr repo, w0)
        \<and> repo_get_contents G repo path branch w0 = (Inl (GithubException m), w1)
        \<and> repo_create_file G repo path message content branch w1 = (Inl (GithubException m'), w2) \<longrightarrow>
      commit_file_change G config path content message branch w =
        (Inr (json_dumps (JObj [(''error'', JStr m')])), w2))"
    by (simp add: commit_file_change_def try_update_def try_create_def)
  have backward:
    "\<forall>s. fst (commit_file_change G config path content message branch w) =
          Inr (json_dumps (JObj [(''success'', JBool True), (''action'', JStr ''updated''),
                                 (''commit_sha'', JStr s)])) \<longrightarrow>
        (\<exists>repo w0 existing w1 commit_sha w2.
           get_repo G config w = (Inr repo, w0)
           \<and> repo_get_contents G repo path branch w0 = (Inr (ContentFile existing), w1)
           \<and> repo_update_file G repo path message content (cf_sha existing) branch w1
               = (Inr commit_sha, w2))"
    using updated_only_after_update [of G config path content message branch w]
    unfolding commit_payload_def by blast
  show ?thesis
    using forward backward by blast
qed

theorem commit_file_change_update_or_create_witness:
  "get_repo demo_github demo_config demo_repo_state = (Inr ''shop/checkout'', demo_repo_state)
   \<and> repo_get_contents demo_github ''shop/checkout'' ''main.py'' ''fix'' demo_repo_state
       = (Inr (ContentFile \<lparr>cf_name = ''main.py'', cf_path = ''main.py'', cf_sha = ''blob:x = 1''\<rparr>),
          demo_repo_state)
   \<and> commit_file_change demo_github demo_config ''main.py'' ''x = 2'' ''Fix the bug'' ''fix''
        demo_repo_state
       = (Inr ''{\"success\": true, \"action\": \"updated\", \"commit_sha\": \"commit:Fix the bug\"}'',
          demo_repo_state\<lparr>files := ((''fix'', ''main.py''), ''x = 2'') # files demo_repo_state\<rparr>)
   \<and> repo_get_contents demo_github ''shop/checkout'' ''new.py'' ''fix'' demo_repo_state
       = (Inl (GithubException ''404 {\"message\": \"Not Found\"}''), demo_repo_state)
   \<and> commit_file_change demo_github demo_config ''new.py'' ''y = 0'' ''Add a file'' ''fix''
        demo_repo_state
       = (Inr ''{\"success\": true, \"action\": \"created\", \"commit_sha\": \"commit:Add a file\"}'',
          demo_repo_state\<lparr>files := ((''fix'', ''new.py''), ''y = 0'') # files demo_repo_state\<rparr>)
   \<and> repo_create_file demo_github ''shop/checkout'' ''new.py'' ''Add a file'' ''y = 0'' ''gone''
        demo_repo_state
       = (Inl (GithubException ''404 {\"message\": \"Branch not found\"}''), demo_repo_state)
   \<and> commit_file_change demo_github demo_config ''new.py'' ''y = 0'' ''Add a file'' ''gone''
        demo_repo_state
       = (Inr (json_dumps (JObj [(''error'', JStr ''404 {\"message\": \"Branch not found\"}'')])),
          demo_repo_state)
   \<and> get_repo demo_github (demo_config(''GITHUB_TOKEN'' := None)) demo_repo_state
       = (Inl (KeyError ''GITHUB_TOKEN''), demo_repo_state)
   \<and> commit_file_change demo_github (demo_config(''GITHUB_TOKEN'' := None))
        ''new.py'' ''y = 0'' ''Add a file'' ''fix'' demo_repo_state
       = (Inl (KeyError ''GITHUB_TOKEN''), demo_repo_state)"
proof -
  let ?w = demo_repo_state
  let ?r = "''shop/checkout''"
  have repo: "get_repo demo_github demo_config ?w = (Inr ?r, ?w)"
    by (simp add: get_repo_def demo_config_def demo_github_def)
  have norepo: "get_repo demo_github (demo_config(''GITHUB_TOKEN'' := None)) ?w
                  = (Inl (KeyError ''GITHUB_TOKEN''), ?w)"
    by (simp add: get_repo_def demo_config_def)
  have found: "repo_get_contents demo_github ?r ''main.py'' ''fix'' ?w
       = (Inr (ContentFile \<lparr>cf_name = ''main.py'', cf_path = ''main.py'', cf_sha = ''blob:x = 1''\<rparr>), ?w)"
    by (simp add: demo_github_def demo_repo_state_def)
  have updated: "repo_update_file demo_github ?r ''main.py'' ''Fix the bug'' ''x = 2''
        (cf_sha \<lparr>cf_name = ''main.py'', cf_path = ''main.py'', cf_sha = ''blob:x = 1''\<rparr>) ''fix'' ?w
       = (Inr ''commit:Fix the bug'', ?w\<lparr>files := ((''fix'', ''main.py''), ''x = 2'') # files ?w\<rparr>)"
    by (simp add: demo_github_def demo_repo_state_def)
  have missing: "repo_get_contents demo_github ?r ''new.py'' ''fix'' ?w
       = (Inl (GithubException ''404 {\"message\": \"Not Found\"}''), ?w)"
    by (simp add: demo_github_def demo_repo_state_def)
  have created: "repo_create_file demo_github ?r ''new.py'' ''Add a file'' ''y = 0'' ''fix'' ?w
       = (Inr ''commit:Add a file'', ?w\<lparr>files := ((''fix'', ''new.py''), ''y = 0'') # files ?w\<rparr>)"
    by (simp add: demo_github_def demo_repo_state_def)
  have noref: "repo_get_contents demo_github ?r ''new.py'' ''gone'' ?w
       = (Inl (GithubException ''404 {\"message\": \"No commit found for the ref\"}''), ?w)"
    by (simp add: demo_github_def demo_repo_state_def)
  have refused: "repo_create_file demo_github ?r ''new.py'' ''Add a file'' ''y = 0'' ''gone'' ?w
       = (Inl (GithubException ''404 {\"message\": \"Branch not found\"}''), ?w)"
    by (simp add: demo_github_def demo_repo_state_def)
  have e: "escaped ''success'' = ''success''" "escaped ''action'' = ''action''"
    "escaped ''commit_sha'' = ''commit_sha''" "escaped ''updated'' = ''updated''"
    "escaped ''created'' = ''created''" "escaped ''commit:Fix the bug'' = ''commit:Fix the bug''"
    "escaped ''commit:Add a file'' = ''commit:Add a file''"
    by (simp_all add: escaped_def escape_char_def)
  have r1: "commit_file_change demo_github demo_config ''main.py'' ''x = 2'' ''Fix the bug'' ''fix'' ?w
       = (Inr ''{\"success\": true, \"action\": \"updated\", \"commit_sha\": \"commit:Fix the bug\"}'',
          ?w\<lparr>files := ((''fix'', ''main.py''), ''x = 2'') # files ?w\<rparr>)"
    using commit_file_change_update_or_create [of demo_github demo_config ?w "''main.py''"
        "''x = 2''" "''Fix the bug''" "''fix''", THEN conjunct2, THEN conjunct1] repo found updated
    by (simp add: encode_string_def e)
  have r2: "commit_file_change demo_github demo_config ''new.py'' ''y = 0'' ''Add a file'' ''fix'' ?w
       = (Inr ''{\"success\": true, \"action\": \"created\", \"commit_sha\": \"commit:Add a file\"}'',
          ?w\<lparr>files := ((''fix'', ''new.py''), ''y = 0'') # files ?w\<rparr>)"
    using commit_file_change_update_or_create [of demo_github demo_config ?w "''new.py''"
        "''y = 0''" "''Add a file''" "''fix''",
        THEN conjunct2, THEN conjunct2, THEN conjunct2, THEN conjunct1] repo missing created
    by (simp add: encode_string_def e)
  have r3: "commit_file_change demo_github demo_config ''new.py'' ''y = 0'' ''Add a file'' ''gone'' ?w
       = (Inr (json_dumps (JObj [(''error'', JStr ''404 {\"message\": \"Branch not found\"}'')])), ?w)"
    using commit_file_change_update_or_create [of demo_github demo_config ?w "''new.py''"
        "''y = 0''" "''Add a file''" "''gone''",
        THEN conjunct2, THEN conjunct2, THEN conjunct2, THEN conjunct2] repo noref refused
    by blast
  have r4: "commit_file_change demo_github (demo_config(''GITHUB_TOKEN'' := None))
        ''new.py'' ''y = 0'' ''Add a file'' ''fix'' ?w = (Inl (KeyError ''GITHUB_TOKEN''), ?w)"
    using commit_file_change_update_or_create [of demo_github "demo_config(''GITHUB_TOKEN'' := None)"
        ?w "''new.py''" "''y = 0''" "''Add a file''" "''fix''", THEN conjunct1] norepo
    by blast
  show ?thesis
    using repo norepo found missing refused r1 r2 r3 r4 by simp
qed

text \<open>
  Claim C8, as stated, fails: for a number of hours that reaches back before the year 1
  the subtraction from the current time raises \<^verbatim>\<open>OverflowError\<close>, and no query is made.
\<close>

theorem list_log_entries_overflow_counterexample:
  "list_log_entries demo_logging demo_config ''checkout'' 100000000 50 []
     = (Inl (OverflowError ''date value out of range''), [])"
  by (simp add: list_log_entries_def demo_logging_def timedelta_hours_def datetime_sub_def
        datetime_max_def)

lemma timedelta_hours_in_range:
  assumes "0 \<le> now" "now \<le> datetime_max"
    and "0 \<le> now - hours_ago * 3600000000" "now - hours_ago * 3600000000 \<le> datetime_max"
  shows "timedelta_hours hours_ago = Inr (hours_ago * 3600000000)"
proof -
  have "- 315537897600000000 < hours_ago * 3600000000"
    and "hours_ago * 3600000000 < 315537897600000000"
    using assms by (simp_all add: datetime_max_def)
  then have "- 87649416 \<le> hours_ago" and "hours_ago \<le> 87649416"
    by linarith+
  then have "- 999999999 \<le> hours_ago div 24" and "hours_ago div 24 \<le> 999999999"
    by linarith+
  then show ?thesis
    by (simp add: timedelta_hours_def Let_def)
qed

text \<open>
  Claim C8, amended. For a configuration that holds \<^verbatim>\<open>GCP_PROJECT_ID\<close>, and a number of
  hours for which the instant that many hours before the current time is a
  \<^verbatim>\<open>datetime\<close> (year 1 to 9999), \<^verbatim>\<open>list_log_entries\<close> returns exactly what
  \<^verbatim>\<open>query_logs\<close> returns for the same configuration and limit and the filter that
  restricts to the resource type \<^verbatim>\<open>cloud_run_revision\<close>, the service name of the function,
  the request log of the project, and the timestamps from that instant on.
\<close>

theorem list_log_entries_is_query_logs:
  "config ''GCP_PROJECT_ID'' = Some project_id \<Longrightarrow>
   datetime_now L w = (now, w1) \<Longrightarrow>
   0 \<le> now \<Longrightarrow> now \<le> datetime_max \<Longrightarrow>
   0 \<le> now - hours_ago * 3600000000 \<Longrightarrow> now - hours_ago * 3600000000 \<le> datetime_max \<Longrightarrow>
     list_log_entries L config function_name hours_ago limit w =
       query_logs L config
         (''resource.type=\"cloud_run_revision\" ''
          @ ''resource.labels.service_name=\"'' @ function_name @ ''\" ''
          @ ''logName=\"projects/'' @ project_id @ ''/logs/run.googleapis.com%2Frequests\" ''
          @ ''timestamp>=\"'' @ isoformat L (now - hours_ago * 3600000000) @ ''\"'')
         limit w1"
proof -
  assume project: "config ''GCP_PROJECT_ID'' = Some project_id"
    and clock: "datetime_now L w = (now, w1)"
    and range: "0 \<le> now" "now \<le> datetime_max"
      "0 \<le> now - hours_ago * 3600000000" "now - hours_ago * 3600000000 \<le> datetime_max"
  have delta: "timedelta_hours hours_ago = Inr (hours_ago * 3600000000)"
    using range by (rule timedelta_hours_in_range)
  have past: "datetime_sub now (hours_ago * 3600000000) = Inr (now - hours_ago * 3600000000)"
    using range(3,4) by (simp add: datetime_sub_def)
  show ?thesis
    by (simp add: list_log_entries_def clock delta past project request_log_filter_def)
qed

theorem list_log_entries_is_query_logs_witness:
  "demo_config ''GCP_PROJECT_ID'' = Some ''shop''
   \<and> datetime_now demo_logging [] = (63929520000000000, [])
   \<and> (0::int) \<le> 63929520000000000 \<and> 63929520000000000 \<le> datetime_max
   \<and> (0::int) \<le> 63929520000000000 - 24 * 3600000000
   \<and> 63929520000000000 - 24 * 3600000000 \<le> datetime_max
   \<and> list_log_entries demo_logging demo_config ''checkout'' 24 50 []
       = query_logs demo_logging demo_config
           (''resource.type=\"cloud_run_revision\" resource.labels.service_name=\"checkout\" ''
            @ ''logName=\"projects/shop/logs/run.googleapis.com%2Frequests\" ''
            @ ''timestamp>=\"2026-11-05T00:00:00+00:00\"'') 50 []
   \<and> list_log_entries demo_logging demo_config ''checkout'' 24 50 []
       = (Inr ''[]'',
          [''resource.type=\"cloud_run_revision\" resource.labels.service_name=\"checkout\" ''
            @ ''logName=\"projects/shop/logs/run.googleapis.com%2Frequests\" ''
            @ ''timestamp>=\"2026-11-05T00:00:00+00:00\"''])"
proof -
  have project: "demo_config ''GCP_PROJECT_ID'' = Some ''shop''"
    by (simp add: demo_config_def)
  have clock: "datetime_now demo_logging [] = (63929520000000000, [])"
    by (simp add: demo_logging_def)
  have range: "(0::int) \<le> 63929520000000000" "63929520000000000 \<le> datetime_max"
    "(0::int) \<le> 63929520000000000 - 24 * 3600000000"
    "63929520000000000 - 24 * 3600000000 \<le> datetime_max"
    by (simp_all add: datetime_max_def)
  have iso: "isoformat demo_logging 63929433600000000 = ''2026-11-05T00:00:00+00:00''"
    by (simp add: demo_logging_def)
  have q: "query_logs demo_logging demo_config f 50 [] = (Inr ''[]'', [f])" for f
    by (simp add: query_logs_def get_client_def demo_logging_def demo_config_def)
  show ?thesis
    using project clock range
      list_log_entries_is_query_logs [where config = demo_config and project_id = "''shop''"
        and L = demo_logging and w = "[]" and now = 63929520000000000 and ?w1.0 = "[]"
        and hours_ago = 24 and function_name = "''checkout''" and limit = 50]
    by (simp add: iso q)
qed

end
